theory Spec2Isabelle
  imports Complex_Main
begin

section \<open>Strings and numbers of the host language\<close>

text \<open>
  A string is a list of UTF-16 code units, each a natural number. ASCII text is written
  with \<open>asc\<close>; the Vietnamese captions are spelled with their code units.

  A number is either not-a-number or a finite value. Finite values are kept as exact
  decimals: rounding to binary floating point, overflow to infinity and underflow to zero
  are outside this model.
\<close>

type_synonym cu = nat
type_synonym jsstring = "cu list"

definition asc :: "string \<Rightarrow> jsstring" where
  "asc s = map of_char s"

datatype jsnum = NaN | Num rat

text \<open>\<open>(isNegative ? -1 : 1) * x\<close>\<close>
fun num_times :: "rat \<Rightarrow> jsnum \<Rightarrow> jsnum" where
  "num_times s NaN = NaN"
| "num_times s (Num r) = Num (s * r)"

text \<open>\<open>Math.abs\<close>\<close>
fun num_abs :: "jsnum \<Rightarrow> jsnum" where
  "num_abs NaN = NaN"
| "num_abs (Num r) = Num \<bar>r\<bar>"

text \<open>Truthiness of a number: neither zero nor not-a-number.\<close>
fun truthy_num :: "jsnum \<Rightarrow> bool" where
  "truthy_num NaN = False"
| "truthy_num (Num r) = (r \<noteq> 0)"

text \<open>The comparison \<open>x >= 0\<close>, false on not-a-number.\<close>
fun num_nonneg :: "jsnum \<Rightarrow> bool" where
  "num_nonneg NaN = False"
| "num_nonneg (Num r) = (0 \<le> r)"

text \<open>The comparison \<open>x < 0\<close>, false on not-a-number.\<close>
fun num_negative :: "jsnum \<Rightarrow> bool" where
  "num_negative NaN = False"
| "num_negative (Num r) = (r < 0)"

subsection \<open>Character classes\<close>

definition is_digit :: "cu \<Rightarrow> bool" where
  "is_digit c = (48 \<le> c \<and> c \<le> 57)"

text \<open>\<open>\s\<close> and the characters removed by \<open>trim\<close>: white space and line terminators.\<close>
definition is_space :: "cu \<Rightarrow> bool" where
  "is_space c = (c = 9 \<or> c = 10 \<or> c = 11 \<or> c = 12 \<or> c = 13 \<or> c = 32 \<or> c = 160
     \<or> c = 5760 \<or> (8192 \<le> c \<and> c \<le> 8202) \<or> c = 8232 \<or> c = 8233 \<or> c = 8239
     \<or> c = 8287 \<or> c = 12288 \<or> c = 65279)"

definition comma :: cu where "comma = 44"
definition hyphen :: cu where "hyphen = 45"
definition dot :: cu where "dot = 46"
definition newline :: cu where "newline = 10"
definition tab :: cu where "tab = 9"
definition space :: cu where "space = 32"

text \<open>\<open>[\d.,]\<close>\<close>
definition cls_num :: "cu \<Rightarrow> bool" where
  "cls_num c = (is_digit c \<or> c = dot \<or> c = comma)"

text \<open>\<open>[-\d.,]\<close>, also the complement of \<open>[^\d.,-]\<close>\<close>
definition cls_neg :: "cu \<Rightarrow> bool" where
  "cls_neg c = (c = hyphen \<or> is_digit c \<or> c = dot \<or> c = comma)"

text \<open>\<open>[+-\d.,]\<close>: without the unicode flag this is the union of \<open>+\<close>, \<open>-\<close> and \<open>[\d.,]\<close>.\<close>
definition cls_sgn :: "cu \<Rightarrow> bool" where
  "cls_sgn c = (c = 43 \<or> c = hyphen \<or> is_digit c \<or> c = dot \<or> c = comma)"

text \<open>\<open>[A-Z]\<close> under the ignore-case flag\<close>
definition cls_letter :: "cu \<Rightarrow> bool" where
  "cls_letter c = ((65 \<le> c \<and> c \<le> 90) \<or> (97 \<le> c \<and> c \<le> 122))"

text \<open>\<open>[^\n]\<close>\<close>
definition cls_not_nl :: "cu \<Rightarrow> bool" where
  "cls_not_nl c = (c \<noteq> newline)"

text \<open>
  The other letter case of a pattern character. Only the characters that occur in the
  patterns of this program are listed: the ASCII letters and the accented letters of the
  Vietnamese captions (a-grave, a-acute, i-acute, o-grave, o-acute, D-stroke, o-horn-hook,
  a-circumflex-hook). Without the unicode flag no code unit from 128 on is identified with
  an ASCII letter.
\<close>
definition other_case :: "cu \<Rightarrow> cu" where
  "other_case c =
     (if 65 \<le> c \<and> c \<le> 90 then c + 32
      else if 97 \<le> c \<and> c \<le> 122 then c - 32
      else if c = 224 \<or> c = 225 \<or> c = 237 \<or> c = 242 \<or> c = 243 then c - 32
      else if c = 272 then 273
      else if c = 7903 then 7902
      else if c = 7849 then 7848
      else c)"

text \<open>One pattern character under the ignore-case flag.\<close>
definition ci :: "cu \<Rightarrow> cu \<Rightarrow> bool" where
  "ci p x = (x = p \<or> x = other_case p)"

text \<open>One pattern character without the flag.\<close>
definition cs :: "cu \<Rightarrow> cu \<Rightarrow> bool" where
  "cs p x = (x = p)"

subsection \<open>String operations\<close>

text \<open>\<open>s.startsWith(p)\<close> and \<open>s.includes(sub)\<close>\<close>
fun startsWith :: "jsstring \<Rightarrow> jsstring \<Rightarrow> bool" where
  "startsWith s [] = True"
| "startsWith [] (p # ps) = False"
| "startsWith (x # xs) (p # ps) = (x = p \<and> startsWith xs ps)"

fun includes_str :: "jsstring \<Rightarrow> jsstring \<Rightarrow> bool" where
  "includes_str [] sub = startsWith [] sub"
| "includes_str (x # xs) sub = (startsWith (x # xs) sub \<or> includes_str xs sub)"

text \<open>\<open>s.split(c)\<close> for a one-character separator: never the empty list.\<close>
fun split :: "cu \<Rightarrow> jsstring \<Rightarrow> jsstring list" where
  "split c [] = [[]]"
| "split c (x # xs) =
     (if x = c then [] # split c xs
      else (case split c xs of [] \<Rightarrow> [[x]] | p # ps \<Rightarrow> (x # p) # ps))"

text \<open>\<open>s.trim()\<close>\<close>
definition trim :: "jsstring \<Rightarrow> jsstring" where
  "trim s = rev (dropWhile is_space (rev (dropWhile is_space s)))"

text \<open>\<open>s.replace(a, b)\<close> with a one-character string \<open>a\<close>: the first occurrence only.\<close>
fun replace_first :: "cu \<Rightarrow> cu \<Rightarrow> jsstring \<Rightarrow> jsstring" where
  "replace_first a b [] = []"
| "replace_first a b (x # xs) = (if x = a then b # xs else x # replace_first a b xs)"

text \<open>\<open>s.lastIndexOf(c)\<close>, \<open>-1\<close> when absent.\<close>
fun lastIndexFrom :: "cu \<Rightarrow> jsstring \<Rightarrow> int \<Rightarrow> int \<Rightarrow> int" where
  "lastIndexFrom c [] i acc = acc"
| "lastIndexFrom c (x # xs) i acc = lastIndexFrom c xs (i + 1) (if x = c then i else acc)"

definition lastIndexOf :: "jsstring \<Rightarrow> cu \<Rightarrow> int" where
  "lastIndexOf s c = lastIndexFrom c s 0 (- 1)"

text \<open>\<open>s.padStart(2, '0')\<close>\<close>
definition padStart2 :: "jsstring \<Rightarrow> jsstring" where
  "padStart2 s = replicate (2 - length s) 48 @ s"

text \<open>The value of a run of decimal digits.\<close>
definition dec :: "jsstring \<Rightarrow> nat" where
  "dec ds = foldl (\<lambda>a c. 10 * a + (c - 48)) 0 ds"

text \<open>\<open>n.toString()\<close> for a natural number.\<close>
fun toString :: "nat \<Rightarrow> jsstring" where
  "toString n = (if n < 10 then [48 + n] else toString (n div 10) @ [48 + n mod 10])"

declare toString.simps [simp del]

text \<open>\<open>s.toUpperCase()\<close>, on ASCII letters (it is applied to the captured meridiem only).\<close>
definition toUpperCase :: "jsstring \<Rightarrow> jsstring" where
  "toUpperCase s = map (\<lambda>c. if 97 \<le> c \<and> c \<le> 122 then c - 32 else c) s"

text \<open>
  \<open>parseFloat\<close> on the alphabet that survives the stripping in \<open>parseNumber\<close> (digits,
  dot, comma, hyphen): an optional minus sign, then the longest prefix of the shape
  digits, digits-dot-digits or dot-digits; not-a-number when that prefix has no digit.
\<close>
definition parseFloat :: "jsstring \<Rightarrow> jsnum" where
  "parseFloat s =
     (let neg = startsWith s [hyphen];
          t = (if neg then drop 1 s else s);
          ip = takeWhile is_digit t;
          r = dropWhile is_digit t;
          fp = (if startsWith r [dot] then takeWhile is_digit (drop 1 r) else [])
      in if ip = [] \<and> fp = [] then NaN
         else Num ((if neg then - 1 else 1)
                   * (of_nat (dec ip) + of_nat (dec fp) / 10 ^ length fp)))"

text \<open>\<open>parseInt(s, 10)\<close> on a non-empty run of digits.\<close>
definition parseInt10 :: "jsstring \<Rightarrow> nat" where
  "parseInt10 s = dec (takeWhile is_digit s)"

section \<open>Regular expressions\<close>

text \<open>
  The fragment of the pattern language the program uses: a character class, a greedy
  bounded or unbounded repetition of a character class, concatenation, ordered
  alternatives, a greedy optional part, a numbered capture group and the start-of-input
  anchor. Matching backtracks in the order of the host language: longer repetitions
  first, the left alternative first, the optional part taken first.
\<close>

datatype regex =
    Cls "cu \<Rightarrow> bool"
  | Rep "cu \<Rightarrow> bool" nat "nat option"
  | Cat regex regex
  | Alt regex regex
  | Opt regex
  | Grp nat regex
  | Bol
  | Emp

type_synonym caps = "nat \<Rightarrow> jsstring option"

fun rep_m :: "(cu \<Rightarrow> bool) \<Rightarrow> nat \<Rightarrow> nat option \<Rightarrow> nat \<Rightarrow> jsstring
    \<Rightarrow> (nat \<Rightarrow> jsstring \<Rightarrow> 'a option) \<Rightarrow> 'a option" where
  "rep_m p lo hi i [] k = (if lo = 0 then k i [] else None)"
| "rep_m p lo hi i (x # xs) k =
     (if p x \<and> hi \<noteq> Some 0
      then (case rep_m p (lo - 1) (map_option (\<lambda>h. h - 1) hi) (Suc i) xs k of
              Some r \<Rightarrow> Some r
            | None \<Rightarrow> if lo = 0 then k i (x # xs) else None)
      else if lo = 0 then k i (x # xs) else None)"

text \<open>
  \<open>m r i s c k\<close>: match \<open>r\<close> at position \<open>i\<close>, where \<open>s\<close> is the rest of the input and
  \<open>c\<close> the captures so far, then continue with \<open>k\<close>.
\<close>
fun m :: "regex \<Rightarrow> nat \<Rightarrow> jsstring \<Rightarrow> caps
    \<Rightarrow> (nat \<Rightarrow> jsstring \<Rightarrow> caps \<Rightarrow> 'a option) \<Rightarrow> 'a option" where
  "m (Cls p) i s c k = (case s of [] \<Rightarrow> None | x # xs \<Rightarrow> if p x then k (Suc i) xs c else None)"
| "m (Rep p lo hi) i s c k = rep_m p lo hi i s (\<lambda>j t. k j t c)"
| "m (Cat a b) i s c k = m a i s c (\<lambda>j t d. m b j t d k)"
| "m (Alt a b) i s c k = (case m a i s c k of Some r \<Rightarrow> Some r | None \<Rightarrow> m b i s c k)"
| "m (Opt a) i s c k = (case m a i s c k of Some r \<Rightarrow> Some r | None \<Rightarrow> k i s c)"
| "m (Grp n a) i s c k = m a i s c (\<lambda>j t d. k j t (d(n \<mapsto> take (j - i) s)))"
| "m Bol i s c k = (if i = 0 then k i s c else None)"
| "m Emp i s c k = k i s c"

text \<open>A match: where it starts, where it ends, and the captures.\<close>
type_synonym rmatch = "nat \<times> nat \<times> caps"

definition match_at :: "regex \<Rightarrow> nat \<Rightarrow> jsstring \<Rightarrow> rmatch option" where
  "match_at r i s = m r i s Map.empty (\<lambda>j t d. Some (i, j, d))"

text \<open>The leftmost match at or after position \<open>i\<close>, \<open>s\<close> being the input from \<open>i\<close> on.\<close>
fun search_from :: "regex \<Rightarrow> nat \<Rightarrow> jsstring \<Rightarrow> rmatch option" where
  "search_from r i [] = match_at r i []"
| "search_from r i (x # xs) =
     (case match_at r i (x # xs) of Some y \<Rightarrow> Some y | None \<Rightarrow> search_from r (Suc i) xs)"

text \<open>\<open>s.match(r)\<close> for a pattern without the global flag\<close>
definition rx_match :: "regex \<Rightarrow> jsstring \<Rightarrow> rmatch option" where
  "rx_match r s = search_from r 0 s"

text \<open>\<open>r.test(s)\<close>\<close>
definition rx_test :: "regex \<Rightarrow> jsstring \<Rightarrow> bool" where
  "rx_test r s = (rx_match r s \<noteq> None)"

text \<open>
  The first two elements of \<open>Array.from(s.matchAll(r))\<close> for a pattern that matches no
  empty string: the second search starts where the first match ends.
\<close>
definition rx_match_two :: "regex \<Rightarrow> jsstring \<Rightarrow> rmatch list" where
  "rx_match_two r s =
     (case search_from r 0 s of
        None \<Rightarrow> []
      | Some (i, j, d) \<Rightarrow>
          (case search_from r j (drop j s) of
             None \<Rightarrow> [(i, j, d)]
           | Some y \<Rightarrow> [(i, j, d), y]))"

text \<open>A capture that may be undefined.\<close>
definition capture_opt :: "rmatch \<Rightarrow> nat \<Rightarrow> jsstring option" where
  "capture_opt mt n = snd (snd mt) n"

text \<open>
  A capture that lies under no optional part and no alternative, and so is set by every
  match.
\<close>
definition capture :: "rmatch \<Rightarrow> nat \<Rightarrow> jsstring" where
  "capture mt n = (case snd (snd mt) n of None \<Rightarrow> [] | Some g \<Rightarrow> g)"

subsection \<open>Pattern notation\<close>

definition seq :: "regex list \<Rightarrow> regex" where
  "seq rs = foldr Cat rs Emp"

text \<open>A literal, with and without the ignore-case flag.\<close>
definition liti :: "jsstring \<Rightarrow> regex" where
  "liti s = foldr (\<lambda>c r. Cat (Cls (ci c)) r) s Emp"

definition lit :: "jsstring \<Rightarrow> regex" where
  "lit s = foldr (\<lambda>c r. Cat (Cls (cs c)) r) s Emp"

text \<open>\<open>\d{n}\<close>, \<open>\s*\<close>, \<open>\s+\<close>, \<open>\n\<close>, and class\<open>+\<close>\<close>
definition digits :: "nat \<Rightarrow> regex" where
  "digits n = Rep is_digit n (Some n)"

definition ws0 :: regex where
  "ws0 = Rep is_space 0 None"

definition ws1 :: regex where
  "ws1 = Rep is_space 1 None"

definition nl :: regex where
  "nl = Cls (cs newline)"

definition many1 :: "(cu \<Rightarrow> bool) \<Rightarrow> regex" where
  "many1 p = Rep p 1 None"

text \<open>\<open>\s*\n\s*\<close>, the gap between a caption and its value\<close>
definition gap :: regex where
  "gap = seq [ws0, nl, ws0]"

section \<open>The normalizers\<close>

text \<open>\<open>/^\d{4}-\d{2}-\d{2}/\<close>\<close>
definition re_iso_date :: regex where
  "re_iso_date = seq [Bol, digits 4, lit (asc ''-''), digits 2, lit (asc ''-''), digits 2]"

text \<open>\<open>/^\d{2}\/\d{2}\/\d{4}/\<close>\<close>
definition re_dmy_date :: regex where
  "re_dmy_date = seq [Bol, digits 2, lit (asc ''/''), digits 2, lit (asc ''/''), digits 4]"

definition parseNumber :: "jsstring \<Rightarrow> jsnum" where
  "parseNumber str =
     (if str = [] then Num 0
      else if rx_test re_iso_date str then Num 0
      else if rx_test re_dmy_date str then Num 0
      else
        let cleaned = filter cls_neg str;
            isNegative = startsWith cleaned [hyphen];
            cleaned = (if isNegative then drop 1 cleaned else cleaned);
            lastCommaIndex = lastIndexOf cleaned comma;
            lastDotIndex = lastIndexOf cleaned dot;
            cleaned =
              (if lastCommaIndex > - 1 \<and> lastDotIndex > - 1 then
                 (if lastCommaIndex > lastDotIndex
                  then replace_first comma dot (filter (\<lambda>c. c \<noteq> dot) cleaned)
                  else filter (\<lambda>c. c \<noteq> comma) cleaned)
               else if lastCommaIndex > - 1 then
                 (let parts = split comma cleaned;
                      lastPart = last parts
                  in if length lastPart \<noteq> 3
                     then map (\<lambda>c. if c = comma then dot else c) cleaned
                     else filter (\<lambda>c. c \<noteq> comma) cleaned)
               else cleaned)
        in num_times (if isNegative then - 1 else 1) (parseFloat cleaned))"

text \<open>\<open>/(\d{1,2})\/(\d{1,2})\/(\d{4})\s+(\d{1,2}):(\d{2}):(\d{2})\s*(SA|CH)?/i\<close>\<close>
definition re_custom_date :: regex where
  "re_custom_date =
     seq [Grp 1 (Rep is_digit 1 (Some 2)), liti (asc ''/''),
          Grp 2 (Rep is_digit 1 (Some 2)), liti (asc ''/''),
          Grp 3 (digits 4), ws1,
          Grp 4 (Rep is_digit 1 (Some 2)), liti (asc '':''),
          Grp 5 (digits 2), liti (asc '':''),
          Grp 6 (digits 2), ws0,
          Opt (Grp 7 (Alt (liti (asc ''SA'')) (liti (asc ''CH''))))]"

text \<open>
  The result is \<open>None\<close> for \<open>undefined\<close>. Nothing in the body throws on a string, so the
  handler of the source is never entered.
\<close>
definition parseCustomDate :: "jsstring \<Rightarrow> jsstring option" where
  "parseCustomDate dateStr =
     (case rx_match re_custom_date dateStr of
        None \<Rightarrow> None
      | Some mt \<Rightarrow>
          let day = capture mt 1; month = capture mt 2; year = capture mt 3;
              hour = capture mt 4; minute = capture mt 5; second = capture mt 6;
              meridiem = capture_opt mt 7;
              h = parseInt10 hour;
              h = (case meridiem of
                     None \<Rightarrow> h
                   | Some md \<Rightarrow>
                       let h1 = (if toUpperCase md = asc ''CH'' \<and> h < 12 then h + 12 else h)
                       in if toUpperCase md = asc ''SA'' \<and> h1 = 12 then 0 else h1)
          in Some (year @ asc ''-'' @ padStart2 month @ asc ''-'' @ padStart2 day @ asc ''T''
                   @ padStart2 (toString h) @ asc '':'' @ minute @ asc '':'' @ second))"

section \<open>The trade record\<close>

text \<open>
  A partial trade: every field may be missing. The two time fields are assigned from
  \<open>parseCustomDate\<close>, so they can also be present with the value \<open>undefined\<close>
  (\<open>Some None\<close>), which the object spread of the dispatcher copies like any other value.
\<close>
record partial_trade =
  p_leverage :: "jsnum option"
  p_coin :: "jsstring option"
  p_quantity :: "jsnum option"
  p_openPrice :: "jsnum option"
  p_closePrice :: "jsnum option"
  p_openTime :: "jsstring option option"
  p_closeTime :: "jsstring option option"
  p_fee :: "jsnum option"
  p_pnl :: "jsnum option"

text \<open>The record returned to the caller. A time is \<open>None\<close> when it is \<open>undefined\<close>.\<close>
record trade =
  uid :: jsstring
  leverage :: jsnum
  openPrice :: jsnum
  closePrice :: "jsnum option"
  openTime :: "jsstring option"
  closeTime :: "jsstring option"
  quantity :: jsnum
  coin :: jsstring
  fee :: jsnum
  pnl :: jsnum

text \<open>\<open>{ leverage: 100 }\<close>\<close>
definition new_trade :: partial_trade where
  "new_trade = \<lparr>p_leverage = Some (Num 100), p_coin = None, p_quantity = None,
     p_openPrice = None, p_closePrice = None, p_openTime = None, p_closeTime = None,
     p_fee = None, p_pnl = None\<rparr>"

text \<open>\<open>const x = text.match(r); if (x) trade.f = ...\<close> is one step on the record.\<close>
definition on_match :: "'m option \<Rightarrow> ('m \<Rightarrow> 't \<Rightarrow> 't) \<Rightarrow> 't \<Rightarrow> 't" where
  "on_match mo f t = (case mo of None \<Rightarrow> t | Some mt \<Rightarrow> f mt t)"

text \<open>The statements of a detector body, run in order on the record.\<close>
definition run_steps :: "('t \<Rightarrow> 't) list \<Rightarrow> 't \<Rightarrow> 't" where
  "run_steps steps t = foldl (\<lambda>acc step. step acc) t steps"

text \<open>\<open>!trade.coin\<close>\<close>
definition no_coin :: "partial_trade \<Rightarrow> bool" where
  "no_coin t = (case p_coin t of None \<Rightarrow> True | Some s \<Rightarrow> s = [])"

text \<open>\<open>parseInt(x, 10)\<close> as a number\<close>
definition parseIntNum :: "jsstring \<Rightarrow> jsnum" where
  "parseIntNum s = Num (of_nat (parseInt10 s))"

section \<open>The format detectors\<close>

subsection \<open>Shared pattern parts\<close>

text \<open>\<open>([\d.,]+)\<close>, \<open>([-\d.,]+)\<close>, \<open>([+-\d.,]+)\<close>, \<open>([A-Z]+)\<close> under the ignore-case flag\<close>
definition g_num :: "nat \<Rightarrow> regex" where
  "g_num n = Grp n (many1 cls_num)"

definition g_neg :: "nat \<Rightarrow> regex" where
  "g_neg n = Grp n (many1 cls_neg)"

definition g_sgn :: "nat \<Rightarrow> regex" where
  "g_sgn n = Grp n (many1 cls_sgn)"

definition g_letters :: "nat \<Rightarrow> regex" where
  "g_letters n = Grp n (many1 cls_letter)"

text \<open>\<open>\d{4}-\d{2}-\d{2}\s\d{2}:\d{2}:\d{2}\<close> and the same with \<open>\s+\<close>\<close>
definition stamp :: regex where
  "stamp = seq [digits 4, liti (asc ''-''), digits 2, liti (asc ''-''), digits 2,
                Cls is_space, digits 2, liti (asc '':''), digits 2, liti (asc '':''), digits 2]"

definition stamp_ws1 :: regex where
  "stamp_ws1 = seq [digits 4, liti (asc ''-''), digits 2, liti (asc ''-''), digits 2,
                    ws1, digits 2, liti (asc '':''), digits 2, liti (asc '':''), digits 2]"

text \<open>An optional single character under the ignore-case flag\<close>
definition opt_chr :: "cu \<Rightarrow> regex" where
  "opt_chr c = Rep (ci c) 0 (Some 1)"

text \<open>\<open>/^([A-Z]+)USDT/i\<close>\<close>
definition re_coin_prefix :: regex where
  "re_coin_prefix = seq [Bol, g_letters 1, liti (asc ''USDT'')]"

text \<open>\<open>/(\d+)X/\<close> and \<open>/(\d+)X/i\<close>\<close>
definition re_lev :: regex where
  "re_lev = seq [Grp 1 (many1 is_digit), lit (asc ''X'')]"

definition re_lev_i :: regex where
  "re_lev_i = seq [Grp 1 (many1 is_digit), liti (asc ''X'')]"

text \<open>\<open>/Position PnL\s*\n\s*([+-\d.,]+)/i\<close>\<close>
definition re_pos_pnl :: regex where
  "re_pos_pnl = seq [liti (asc ''Position PnL''), gap, g_sgn 1]"

text \<open>\<open>/Entry Price\s*\n\s*([\d.,]+)/i\<close>\<close>
definition re_entry :: regex where
  "re_entry = seq [liti (asc ''Entry Price''), gap, g_num 1]"

subsection \<open>Tabular rows\<close>

text \<open>\<open>/^\d/\<close>\<close>
definition re_lead_digit :: regex where
  "re_lead_digit = seq [Bol, Cls is_digit]"

definition parseFormatTabular :: "jsstring \<Rightarrow> partial_trade option" where
  "parseFormatTabular text =
     (let parts = split tab text in
      if length parts < 8 then None
      else if \<not> rx_test re_lead_digit (trim (parts ! 0)) then None
      else Some (run_steps
        [\<lambda>t. t\<lparr>p_openPrice := Some (parseNumber (parts ! 0))\<rparr>,
         \<lambda>t. t\<lparr>p_closePrice := Some (parseNumber (parts ! 1))\<rparr>,
         \<lambda>t. t\<lparr>p_openTime := Some (parseCustomDate (parts ! 2))\<rparr>,
         \<lambda>t. t\<lparr>p_closeTime := Some (parseCustomDate (parts ! 3))\<rparr>,
         \<lambda>t. t\<lparr>p_quantity := Some (parseNumber (parts ! 4))\<rparr>,
         \<lambda>t. t\<lparr>p_coin := Some (trim (parts ! 5))\<rparr>,
         \<lambda>t. t\<lparr>p_fee := Some (num_abs (parseNumber (parts ! 6)))\<rparr>,
         \<lambda>t. t\<lparr>p_pnl := Some (parseNumber (parts ! 7))\<rparr>]
        new_trade))"

subsection \<open>The Vietnamese layout\<close>

text \<open>The captions, with their accented letters as code units.\<close>
definition cap_gia_mo :: jsstring where
  "cap_gia_mo = asc ''Gi'' @ [225] @ asc '' M'' @ [7903]"

definition cap_gia_dong :: jsstring where
  "cap_gia_dong = asc ''Gi'' @ [225, 32, 272, 243] @ asc ''ng''"

definition cap_ngay :: jsstring where
  "cap_ngay = asc ''Ng'' @ [224] @ asc ''y''"

definition cap_phi :: jsstring where
  "cap_phi = asc ''Ph'' @ [237]"

definition cap_don_bay :: jsstring where
  "cap_don_bay = [272, 242] @ asc ''n B'' @ [7849] @ asc ''y''"

definition re_vn_coin :: regex where
  "re_vn_coin = seq [liti (asc ''Coin''), gap, g_letters 1]"

definition re_vn_qty :: regex where
  "re_vn_qty = seq [liti (asc ''SL''), gap, g_num 1]"

definition re_vn_open :: regex where
  "re_vn_open = seq [liti cap_gia_mo, gap, g_num 1]"

definition re_vn_close :: regex where
  "re_vn_close = seq [liti cap_gia_dong, gap, g_num 1]"

text \<open>The date caption, then \<open>\s*\n\s*(\d{2}\/\d{2}\/\d{4}\s+\d{2}:\d{2}:\d{2}\s*(?:SA|CH)?)\<close>, flags \<open>gi\<close>\<close>
definition re_vn_date :: regex where
  "re_vn_date =
     seq [liti cap_ngay, gap,
          Grp 1 (seq [digits 2, liti (asc ''/''), digits 2, liti (asc ''/''), digits 4, ws1,
                      digits 2, liti (asc '':''), digits 2, liti (asc '':''), digits 2, ws0,
                      Opt (Alt (liti (asc ''SA'')) (liti (asc ''CH'')))])]"

definition re_vn_fee :: regex where
  "re_vn_fee = seq [liti cap_phi, gap, g_neg 1]"

definition re_vn_pnl :: regex where
  "re_vn_pnl = seq [liti (asc ''PnL''), gap, g_sgn 1]"

definition re_vn_lev :: regex where
  "re_vn_lev = seq [liti cap_don_bay, gap, Grp 1 (many1 is_digit)]"

definition parseFormatVN :: "jsstring \<Rightarrow> partial_trade option" where
  "parseFormatVN text =
     (if \<not> includes_str text cap_gia_mo \<and> \<not> includes_str text cap_gia_dong then None
      else Some (run_steps
        [on_match (rx_match re_vn_coin text) (\<lambda>mt t. t\<lparr>p_coin := Some (capture mt 1)\<rparr>),
         on_match (rx_match re_vn_qty text)
           (\<lambda>mt t. t\<lparr>p_quantity := Some (parseNumber (capture mt 1))\<rparr>),
         on_match (rx_match re_vn_open text)
           (\<lambda>mt t. t\<lparr>p_openPrice := Some (parseNumber (capture mt 1))\<rparr>),
         on_match (rx_match re_vn_close text)
           (\<lambda>mt t. t\<lparr>p_closePrice := Some (parseNumber (capture mt 1))\<rparr>),
         (\<lambda>t. case rx_match_two re_vn_date text of
                 [] \<Rightarrow> t
               | [d0] \<Rightarrow> t\<lparr>p_openTime := Some (parseCustomDate (capture d0 1))\<rparr>
               | d0 # d1 # _ \<Rightarrow>
                   t\<lparr>p_openTime := Some (parseCustomDate (capture d0 1)),
                     p_closeTime := Some (parseCustomDate (capture d1 1))\<rparr>),
         on_match (rx_match re_vn_fee text)
           (\<lambda>mt t. t\<lparr>p_fee := Some (num_abs (parseNumber (capture mt 1)))\<rparr>),
         on_match (rx_match re_vn_pnl text)
           (\<lambda>mt t. t\<lparr>p_pnl := Some (parseNumber (capture mt 1))\<rparr>),
         on_match (rx_match re_vn_lev text)
           (\<lambda>mt t. t\<lparr>p_leverage := Some (parseIntNum (capture mt 1))\<rparr>)]
        new_trade))"

subsection \<open>The grid layout, identified by the caption Open Time\<close>

definition re_grid_stacked :: regex where
  "re_grid_stacked =
     seq [liti (asc ''Open Time''), gap, liti (asc ''Opening Average Price''), gap,
          liti (asc ''Close Time'')]"

definition re_grid_header :: regex where
  "re_grid_header =
     seq [liti (asc ''Open Time''), gap, liti (asc ''Opening Average Price''), gap,
          liti (asc ''Close Time''), gap, Grp 1 stamp, gap, g_num 2, gap, Grp 3 stamp]"

definition re_grid_close_stack :: regex where
  "re_grid_close_stack =
     seq [liti (asc ''Closing Average Price''), gap, liti (asc ''Position Size''), gap,
          liti (asc ''Funding Fee''), gap, g_num 1, gap, g_num 2, ws0, g_letters 3]"

definition re_grid_feepnl_stack :: regex where
  "re_grid_feepnl_stack =
     seq [liti (asc ''Fees''), gap, liti (asc ''Position PnL''), gap,
          liti (asc ''Realized PnL''), gap, g_neg 1, Rep cls_not_nl 0 None, nl, ws0, g_sgn 2]"

definition re_grid_open :: regex where
  "re_grid_open =
     seq [liti (asc ''Open Time''), gap, liti (asc ''Opening Average Price''), gap,
          Grp 1 stamp, gap, g_num 2]"

definition re_grid_close :: regex where
  "re_grid_close =
     seq [liti (asc ''Close Time''), gap, liti (asc ''Closing Average Price''), gap,
          Grp 1 stamp, gap, g_num 2]"

definition re_grid_qty :: regex where
  "re_grid_qty =
     seq [liti (asc ''Position Size''), gap, liti (asc ''Funding Fee''), gap,
          g_num 1, ws0, g_letters 2]"

definition re_grid_feepnl :: regex where
  "re_grid_feepnl =
     seq [liti (asc ''Fees''), gap, liti (asc ''Position PnL''), gap,
          g_neg 1, Rep cls_not_nl 0 None, nl, ws0, g_sgn 2]"

text \<open>\<open>x.replace(' ', 'T')\<close> on a captured time stamp\<close>
definition stampT :: "jsstring \<Rightarrow> jsstring" where
  "stampT s = replace_first space (of_char CHR ''T'') s"

definition parseFormatAivoraGrid :: "jsstring \<Rightarrow> partial_trade option" where
  "parseFormatAivoraGrid text =
     (if \<not> includes_str text (asc ''Open Time'') then None
      else Some (run_steps
        [(\<lambda>t. if rx_test re_grid_stacked text
               then run_steps
                 [on_match (rx_match re_grid_header text)
                    (\<lambda>mt t. t\<lparr>p_openTime := Some (Some (stampT (capture mt 1))),
                               p_openPrice := Some (parseNumber (capture mt 2)),
                               p_closeTime := Some (Some (stampT (capture mt 3)))\<rparr>),
                  on_match (rx_match re_grid_close_stack text)
                    (\<lambda>mt t. t\<lparr>p_closePrice := Some (parseNumber (capture mt 1)),
                               p_quantity := Some (parseNumber (capture mt 2)),
                               p_coin := Some (capture mt 3)\<rparr>),
                  on_match (rx_match re_grid_feepnl_stack text)
                    (\<lambda>mt t. t\<lparr>p_fee := Some (num_abs (parseNumber (capture mt 1))),
                               p_pnl := Some (parseNumber (capture mt 2))\<rparr>)] t
               else run_steps
                 [on_match (rx_match re_grid_open text)
                    (\<lambda>mt t. t\<lparr>p_openTime := Some (Some (stampT (capture mt 1))),
                               p_openPrice := Some (parseNumber (capture mt 2))\<rparr>),
                  on_match (rx_match re_grid_close text)
                    (\<lambda>mt t. t\<lparr>p_closeTime := Some (Some (stampT (capture mt 1))),
                               p_closePrice := Some (parseNumber (capture mt 2))\<rparr>),
                  on_match (rx_match re_grid_qty text)
                    (\<lambda>mt t. t\<lparr>p_quantity := Some (parseNumber (capture mt 1)),
                               p_coin := Some (capture mt 2)\<rparr>),
                  on_match (rx_match re_grid_feepnl text)
                    (\<lambda>mt t. t\<lparr>p_fee := Some (num_abs (parseNumber (capture mt 1))),
                               p_pnl := Some (parseNumber (capture mt 2))\<rparr>)] t),
         (\<lambda>t. if no_coin t
               then on_match (rx_match re_coin_prefix text)
                      (\<lambda>mt t. t\<lparr>p_coin := Some (capture mt 1)\<rparr>) t
               else t),
         on_match (rx_match re_lev text)
           (\<lambda>mt t. t\<lparr>p_leverage := Some (parseIntNum (capture mt 1))\<rparr>)]
        new_trade))"

subsection \<open>The older English layout\<close>

definition re_en_open :: regex where
  "re_en_open = seq [liti (asc ''Opening Average Price''), gap, g_num 1]"

text \<open>\<open>/(\d{4}-\d{2}-\d{2}\s+\d{2}:\d{2}:\d{2})/i\<close>\<close>
definition re_en_date :: regex where
  "re_en_date = Grp 1 stamp_ws1"

definition re_en_close :: regex where
  "re_en_close = seq [liti (asc ''Closing Average Price''), gap, g_num 1]"

text \<open>\<open>/(?:Volume|Position Size)\s*\n?\s*([\d.,]+)\s+([A-Z]+)/i\<close>\<close>
definition re_en_vol :: regex where
  "re_en_vol =
     seq [Alt (liti (asc ''Volume'')) (liti (asc ''Position Size'')),
          ws0, opt_chr newline, ws0, g_num 1, ws1, g_letters 2]"

definition re_en_fee :: regex where
  "re_en_fee = seq [liti (asc ''Fees''), gap, g_neg 1]"

definition parseFormatAivoraEn :: "jsstring \<Rightarrow> partial_trade option" where
  "parseFormatAivoraEn text =
     (if \<not> includes_str text (asc ''Opening Average Price'')
         \<or> includes_str text (asc ''Time Opened'') then None
      else Some (run_steps
        [on_match (rx_match re_en_open text)
           (\<lambda>mt t. t\<lparr>p_openPrice := Some (parseNumber (capture mt 1))\<rparr>),
         on_match (rx_match re_en_date text)
           (\<lambda>mt t. t\<lparr>p_openTime := Some (Some (stampT (capture mt 1)))\<rparr>),
         on_match (rx_match re_en_close text)
           (\<lambda>mt t. t\<lparr>p_closePrice := Some (parseNumber (capture mt 1))\<rparr>),
         on_match (rx_match re_en_vol text)
           (\<lambda>mt t. t\<lparr>p_quantity := Some (parseNumber (capture mt 1)),
                      p_coin := Some (capture mt 2)\<rparr>),
         on_match (rx_match re_en_fee text)
           (\<lambda>mt t. t\<lparr>p_fee := Some (num_abs (parseNumber (capture mt 1)))\<rparr>),
         on_match (rx_match re_pos_pnl text)
           (\<lambda>mt t. t\<lparr>p_pnl := Some (parseNumber (capture mt 1))\<rparr>),
         on_match (rx_match re_lev_i text)
           (\<lambda>mt t. t\<lparr>p_leverage := Some (parseIntNum (capture mt 1))\<rparr>)]
        new_trade))"

subsection \<open>The mobile layout, identified by the caption Time Opened\<close>

definition re_time_opened :: regex where
  "re_time_opened = seq [liti (asc ''Time Opened''), gap, Grp 1 stamp]"

definition re_time_closed :: regex where
  "re_time_closed = seq [liti (asc ''Time Closed''), gap, Grp 1 stamp]"

definition re_close_price :: regex where
  "re_close_price = seq [liti (asc ''Close Price''), gap, g_num 1]"

text \<open>\<open>(?:Max held|Closed Qty\.?)\<close>\<close>
definition held_or_closed :: regex where
  "held_or_closed = Alt (liti (asc ''Max held'')) (seq [liti (asc ''Closed Qty''), opt_chr dot])"

definition re_mob_qty :: regex where
  "re_mob_qty = seq [held_or_closed, gap, g_num 1]"

definition re_mob_coin_under :: regex where
  "re_mob_coin_under = seq [held_or_closed, gap, many1 cls_num, gap, g_letters 1]"

text \<open>\<open>/Closing PnL\s*\n\s*([+-\d.,]+)/i\<close>\<close>
definition re_closing_pnl :: regex where
  "re_closing_pnl = seq [liti (asc ''Closing PnL''), gap, g_sgn 1]"

text \<open>\<open>/Fees?\s*\n\s*([-\d.,]+)/i\<close>\<close>
definition re_mob_fee :: regex where
  "re_mob_fee = seq [liti (asc ''Fee''), opt_chr (of_char CHR ''s''), gap, g_neg 1]"

definition parseFormatBitunixMobile :: "jsstring \<Rightarrow> partial_trade option" where
  "parseFormatBitunixMobile text =
     (if \<not> includes_str text (asc ''Time Opened'') then None
      else Some (run_steps
        [on_match (rx_match re_coin_prefix text) (\<lambda>mt t. t\<lparr>p_coin := Some (capture mt 1)\<rparr>),
         on_match (rx_match re_lev text)
           (\<lambda>mt t. t\<lparr>p_leverage := Some (parseIntNum (capture mt 1))\<rparr>),
         on_match (rx_match re_time_opened text)
           (\<lambda>mt t. t\<lparr>p_openTime := Some (Some (stampT (capture mt 1)))\<rparr>),
         on_match (rx_match re_entry text)
           (\<lambda>mt t. t\<lparr>p_openPrice := Some (parseNumber (capture mt 1))\<rparr>),
         on_match (rx_match re_time_closed text)
           (\<lambda>mt t. t\<lparr>p_closeTime := Some (Some (stampT (capture mt 1)))\<rparr>),
         on_match (rx_match re_close_price text)
           (\<lambda>mt t. t\<lparr>p_closePrice := Some (parseNumber (capture mt 1))\<rparr>),
         on_match (rx_match re_mob_qty text)
           (\<lambda>mt t. t\<lparr>p_quantity := Some (parseNumber (capture mt 1))\<rparr>),
         (\<lambda>t. if no_coin t
               then on_match (rx_match re_mob_coin_under text)
                      (\<lambda>mt t. t\<lparr>p_coin := Some (capture mt 1)\<rparr>) t
               else t),
         (\<lambda>t. case rx_match re_closing_pnl text of
                 Some closingPnlMatch \<Rightarrow>
                   t\<lparr>p_pnl := Some (parseNumber (capture closingPnlMatch 1))\<rparr>
               | None \<Rightarrow>
                   on_match (rx_match re_pos_pnl text)
                     (\<lambda>mt t. t\<lparr>p_pnl := Some (parseNumber (capture mt 1))\<rparr>) t),
         on_match (rx_match re_mob_fee text)
           (\<lambda>mt t. t\<lparr>p_fee := Some (num_abs (parseNumber (capture mt 1)))\<rparr>)]
        new_trade))"

subsection \<open>The web layout\<close>

definition re_exit :: regex where
  "re_exit = seq [liti (asc ''Exit Price''), gap, g_num 1]"

definition re_web_open_time :: regex where
  "re_web_open_time = seq [liti (asc ''Open Time''), gap, Grp 1 stamp]"

definition parseFormatBitunixWeb :: "jsstring \<Rightarrow> partial_trade option" where
  "parseFormatBitunixWeb text =
     (if \<not> includes_str text (asc ''Entry Price'') \<or> \<not> includes_str text (asc ''Time Opened'')
      then None
      else Some (run_steps
        [on_match (rx_match re_entry text)
           (\<lambda>mt t. t\<lparr>p_openPrice := Some (parseNumber (capture mt 1))\<rparr>),
         on_match (rx_match re_exit text)
           (\<lambda>mt t. t\<lparr>p_closePrice := Some (parseNumber (capture mt 1))\<rparr>),
         on_match (rx_match re_web_open_time text)
           (\<lambda>mt t. t\<lparr>p_openTime := Some (Some (stampT (capture mt 1)))\<rparr>),
         on_match (rx_match re_pos_pnl text)
           (\<lambda>mt t. t\<lparr>p_pnl := Some (parseNumber (capture mt 1))\<rparr>)]
        new_trade))"

section \<open>The cascade dispatcher\<close>

text \<open>\<open>a || b\<close> on detector results: a record is truthy, \<open>null\<close> is not.\<close>
definition or_else :: "'a option \<Rightarrow> 'a option \<Rightarrow> 'a option" where
  "or_else a b = (case a of Some x \<Rightarrow> Some x | None \<Rightarrow> b)"

definition smartParse :: "jsstring \<Rightarrow> partial_trade option" where
  "smartParse text =
     or_else (parseFormatTabular text)
    (or_else (parseFormatVN text)
    (or_else (parseFormatAivoraGrid text)
    (or_else (parseFormatBitunixMobile text)
    (or_else (parseFormatAivoraEn text)
             (parseFormatBitunixWeb text)))))"

text \<open>\<open>smartParse.openPrice && (smartParse.quantity || smartParse.coin)\<close>\<close>
definition truthy_opt_num :: "jsnum option \<Rightarrow> bool" where
  "truthy_opt_num x = (case x of None \<Rightarrow> False | Some n \<Rightarrow> truthy_num n)"

definition truthy_opt_str :: "jsstring option \<Rightarrow> bool" where
  "truthy_opt_str x = (case x of None \<Rightarrow> False | Some s \<Rightarrow> s \<noteq> [])"

definition gate :: "partial_trade \<Rightarrow> bool" where
  "gate p = (truthy_opt_num (p_openPrice p)
             \<and> (truthy_opt_num (p_quantity p) \<or> truthy_opt_str (p_coin p)))"

text \<open>
  The object spread over the default template. \<open>now\<close> is the reading of the clock,
  \<open>new Date().toISOString()\<close>. A field that is present in the partial record wins, also
  when its value is \<open>undefined\<close>.
\<close>
definition or_default :: "'a option \<Rightarrow> 'a \<Rightarrow> 'a" where
  "or_default x d = (case x of None \<Rightarrow> d | Some v \<Rightarrow> v)"

definition merge_defaults :: "jsstring \<Rightarrow> partial_trade \<Rightarrow> trade" where
  "merge_defaults now p =
     \<lparr>uid = [],
      leverage = or_default (p_leverage p) (Num 100),
      openPrice = or_default (p_openPrice p) (Num 0),
      closePrice = p_closePrice p,
      openTime = or_default (p_openTime p) (Some now),
      closeTime = or_default (p_closeTime p) None,
      quantity = or_default (p_quantity p) (Num 0),
      coin = or_default (p_coin p) (asc ''ETH''),
      fee = or_default (p_fee p) (Num 0),
      pnl = or_default (p_pnl p) (Num 0)\<rparr>"

text \<open>
  The dispatcher. \<open>ai\<close> is the collaborator \<open>parseWithGemini\<close>: it answers a text with a
  failure or a record. The result is the list of texts sent to the collaborator,
  together with what the caller receives. The diagnostic console output is left out.
\<close>
definition parseTradeTextSmart ::
    "(jsstring \<Rightarrow> 'e + trade) \<Rightarrow> jsstring \<Rightarrow> jsstring \<Rightarrow> jsstring list \<times> ('e + trade)" where
  "parseTradeTextSmart ai now text =
     (case smartParse text of
        Some p \<Rightarrow> if gate p then ([], Inr (merge_defaults now p)) else ([text], ai text)
      | None \<Rightarrow> ([text], ai text))"

section \<open>Vocabulary of the properties\<close>

text \<open>
  A date token \<open>D/M/YYYY H:MM:SS\<close> built from its digit runs, and the canonical time
  stamp \<open>YYYY-MM-DDTHH:MM:SS\<close> with month, day and hour padded to width 2.
\<close>
definition date_token ::
    "jsstring \<Rightarrow> jsstring \<Rightarrow> jsstring \<Rightarrow> jsstring \<Rightarrow> jsstring \<Rightarrow> jsstring \<Rightarrow> jsstring" where
  "date_token day month year hour minute second =
     day @ asc ''/'' @ month @ asc ''/'' @ year @ asc '' '' @ hour @ asc '':'' @ minute
       @ asc '':'' @ second"

definition canonical ::
    "jsstring \<Rightarrow> jsstring \<Rightarrow> jsstring \<Rightarrow> nat \<Rightarrow> jsstring \<Rightarrow> jsstring \<Rightarrow> jsstring" where
  "canonical year month day h minute second =
     year @ asc ''-'' @ padStart2 month @ asc ''-'' @ padStart2 day @ asc ''T''
       @ padStart2 (toString h) @ asc '':'' @ minute @ asc '':'' @ second"

text \<open>The detectors in the order in which the dispatcher tries them.\<close>
definition detectors :: "(jsstring \<Rightarrow> partial_trade option) list" where
  "detectors = [parseFormatTabular, parseFormatVN, parseFormatAivoraGrid,
                parseFormatBitunixMobile, parseFormatAivoraEn, parseFormatBitunixWeb]"

text \<open>
  The cascade as the specification words it, for comparison with the dispatcher: the
  acceptance gate is applied to each detector result before the cascade moves on, a
  result that fails it counts as no match, and the collaborator is called only when no
  detector is left.
\<close>
fun first_gated :: "(jsstring \<Rightarrow> partial_trade option) list \<Rightarrow> jsstring \<Rightarrow> partial_trade option" where
  "first_gated [] text = None"
| "first_gated (d # ds) text =
     (case d text of
        None \<Rightarrow> first_gated ds text
      | Some p \<Rightarrow> if gate p then Some p else first_gated ds text)"

definition spec_gated_cascade ::
    "(jsstring \<Rightarrow> 'e + trade) \<Rightarrow> jsstring \<Rightarrow> jsstring \<Rightarrow> jsstring list \<times> ('e + trade)" where
  "spec_gated_cascade ai now text =
     (case first_gated detectors text of
        Some p \<Rightarrow> ([], Inr (merge_defaults now p))
      | None \<Rightarrow> ([text], ai text))"

subsection \<open>Example texts\<close>

text \<open>The tab-separated row of the specification, and a row with a ninth field.\<close>
definition row :: jsstring where
  "row = asc ''2860,90'' @ [tab] @ asc ''2827,45'' @ [tab] @ asc ''1/12/2025 10:19:16'' @ [tab]
       @ asc ''1/12/2025 10:39:12'' @ [tab] @ asc ''15,00'' @ [tab] @ asc ''ETH'' @ [tab]
       @ asc ''42,66'' @ [tab] @ asc ''-501,75''"

definition row9 :: jsstring where
  "row9 = asc ''1'' @ [tab] @ asc ''2'' @ [tab] @ asc ''3'' @ [tab] @ asc ''4'' @ [tab]
        @ asc ''5'' @ [tab] @ asc ''ETH'' @ [tab] @ asc ''6'' @ [tab] @ asc ''7'' @ [tab]
        @ asc ''8''"

text \<open>Rows whose fee field is not a number, and is written with a minus sign.\<close>
definition row_nan :: jsstring where
  "row_nan = asc ''1'' @ [tab] @ asc ''2'' @ [tab] @ asc ''3'' @ [tab] @ asc ''4'' @ [tab]
     @ asc ''5'' @ [tab] @ asc ''ETH'' @ [tab] @ asc ''x'' @ [tab] @ asc ''7''"

definition row_neg :: jsstring where
  "row_neg = asc ''1'' @ [tab] @ asc ''2'' @ [tab] @ asc ''3'' @ [tab] @ asc ''4'' @ [tab]
     @ asc ''5'' @ [tab] @ asc ''ETH'' @ [tab] @ asc ''-6'' @ [tab] @ asc ''7''"

text \<open>A row whose open time can be read and whose close time cannot.\<close>
definition row_time :: jsstring where
  "row_time = asc ''1'' @ [tab] @ asc ''2'' @ [tab] @ asc ''1/2/2025 3:04:05'' @ [tab]
     @ asc ''4'' @ [tab] @ asc ''5'' @ [tab] @ asc ''ETH'' @ [tab] @ asc ''6'' @ [tab]
     @ asc ''7''"

text \<open>
  A text with the caption Open Time that the grid detector cannot read, but the older
  English detector can.
\<close>
definition text_grid_en :: jsstring where
  "text_grid_en = asc ''Open Time'' @ [newline] @ asc ''Opening Average Price'' @ [newline]
     @ asc ''5'' @ [newline] @ asc ''Volume 2 ETH''"

text \<open>A text in the Vietnamese layout with a price and a quantity, and no date.\<close>
definition text_vn :: jsstring where
  "text_vn = cap_gia_mo @ [newline] @ asc ''5'' @ [newline] @ asc ''SL'' @ [newline] @ asc ''2''"

text \<open>A text in the mobile layout with both PnL captions.\<close>
definition text_mobile_pnl :: jsstring where
  "text_mobile_pnl = asc ''Time Opened'' @ [newline] @ asc ''Position PnL'' @ [newline]
     @ asc ''+5'' @ [newline] @ asc ''Closing PnL'' @ [newline] @ asc ''-3''"

text \<open>A collaborator that answers every text with one fixed record.\<close>
definition sample_trade :: trade where
  "sample_trade = \<lparr>uid = asc ''from-ai'', leverage = Num 5, openPrice = Num 0,
     closePrice = None, openTime = None, closeTime = None, quantity = Num 0, coin = [],
     fee = Num 0, pnl = Num 0\<rparr>"

definition sample_ai :: "jsstring \<Rightarrow> unit + trade" where
  "sample_ai t = Inr sample_trade"

text \<open>The fee of a partial record, when present, is not negative.\<close>
definition fee_ok :: "partial_trade \<Rightarrow> bool" where
  "fee_ok p = (case p_fee p of None \<Rightarrow> True | Some f \<Rightarrow> \<not> num_negative f)"

section \<open>Evaluation rules\<close>

text \<open>The definitions that the simplifier unfolds to run the program on a concrete text.\<close>

lemmas chars = asc_def is_digit_def is_space_def comma_def hyphen_def dot_def newline_def tab_def
  space_def cls_num_def cls_neg_def cls_sgn_def cls_letter_def cls_not_nl_def
  other_case_def ci_def cs_def

lemmas strs = trim_def lastIndexOf_def padStart2_def dec_def toUpperCase_def parseFloat_def
  parseInt10_def Let_def

lemmas rx = match_at_def rx_match_def rx_test_def rx_match_two_def capture_opt_def capture_def
  seq_def liti_def lit_def digits_def ws0_def ws1_def nl_def many1_def gap_def

lemmas norm = re_iso_date_def re_dmy_date_def parseNumber_def re_custom_date_def
  parseCustomDate_def toString.simps

lemmas parts = g_num_def g_neg_def g_sgn_def g_letters_def stamp_def stamp_ws1_def opt_chr_def
  re_coin_prefix_def re_lev_def re_lev_i_def re_pos_pnl_def re_entry_def on_match_def
  run_steps_def new_trade_def no_coin_def parseIntNum_def stampT_def

lemmas tabular = parseFormatTabular_def re_lead_digit_def

lemmas vn = cap_gia_mo_def cap_gia_dong_def cap_ngay_def cap_phi_def cap_don_bay_def
  re_vn_coin_def re_vn_qty_def re_vn_open_def re_vn_close_def re_vn_date_def re_vn_fee_def
  re_vn_pnl_def re_vn_lev_def parseFormatVN_def

lemmas grid = re_grid_stacked_def re_grid_header_def re_grid_close_stack_def
  re_grid_feepnl_stack_def re_grid_open_def re_grid_close_def re_grid_qty_def
  re_grid_feepnl_def parseFormatAivoraGrid_def

lemmas en = re_en_open_def re_en_date_def re_en_close_def re_en_vol_def re_en_fee_def
  parseFormatAivoraEn_def

lemmas mobile = re_time_opened_def re_time_closed_def re_close_price_def held_or_closed_def
  re_mob_qty_def re_mob_coin_under_def re_closing_pnl_def re_mob_fee_def
  parseFormatBitunixMobile_def

lemmas web = re_exit_def re_web_open_time_def parseFormatBitunixWeb_def

lemmas dispatch = or_else_def smartParse_def truthy_opt_num_def truthy_opt_str_def gate_def
  or_default_def merge_defaults_def parseTradeTextSmart_def

section \<open>Facts about the string operations and the matcher\<close>

lemma lastIndexFrom_pos:
  "- 1 \<le> acc \<Longrightarrow> 0 \<le> i \<Longrightarrow> (- 1 < lastIndexFrom c s i acc) = (c \<in> set s \<or> - 1 < acc)"
  by (induction s arbitrary: i acc) auto

lemma lastIndexOf_pos: "(- 1 < lastIndexOf s c) = (c \<in> set s)"
  by (simp add: lastIndexOf_def lastIndexFrom_pos)

lemma takeWhile_none: "\<forall>c\<in>set s. \<not> P c \<Longrightarrow> takeWhile P s = []"
  by (cases s) auto

lemma takeWhile_all: "\<forall>c\<in>set s. P c \<Longrightarrow> takeWhile P s = s"
  by (induction s) auto

lemma dropWhile_none: "\<forall>c\<in>set s. \<not> P c \<Longrightarrow> dropWhile P s = s"
  by (cases s) auto

lemma digit_not_sep: "is_digit d \<Longrightarrow> d \<noteq> hyphen \<and> d \<noteq> dot \<and> d \<noteq> comma \<and> d \<noteq> 47"
  by (simp add: is_digit_def hyphen_def dot_def comma_def)

lemma parseFloat_digit_head: "is_digit d \<Longrightarrow> parseFloat (d # r) \<noteq> NaN"
  using digit_not_sep[of d] by (simp add: parseFloat_def Let_def)

lemma parseFloat_parts:
  assumes "\<not> startsWith s [hyphen]" "takeWhile is_digit s = ip" "dropWhile is_digit s = r"
    and "fp = (if startsWith r [dot] then takeWhile is_digit (drop 1 r) else [])"
  shows "parseFloat s =
     (if ip = [] \<and> fp = [] then NaN
      else Num (of_nat (dec ip) + of_nat (dec fp) / 10 ^ length fp))"
  unfolding parseFloat_def Let_def assms(4)
  by (simp only: assms(1-3) if_False mult_1 simp_thms)

lemma parseFloat_no_digit:
  assumes "\<forall>c\<in>set s. \<not> is_digit c"
  shows "parseFloat s = NaN"
proof -
  define t where "t = (if startsWith s [hyphen] then drop 1 s else s)"
  have nd: "\<forall>c\<in>set t. \<not> is_digit c" using assms by (auto simp: t_def dest: in_set_dropD)
  have "\<forall>c\<in>set (drop 1 t). \<not> is_digit c" using nd by (auto dest: in_set_dropD)
  then have a: "takeWhile is_digit (drop 1 t) = []" by (rule takeWhile_none)
  have b: "takeWhile is_digit t = []" using nd by (rule takeWhile_none)
  have c: "dropWhile is_digit t = t" using nd by (rule dropWhile_none)
  show ?thesis
    unfolding parseFloat_def Let_def t_def[symmetric] by (simp only: a b c if_cancel simp_thms if_True)
qed

lemma parseFloat_digits:
  assumes "ds \<noteq> []" "\<forall>c\<in>set ds. is_digit c"
  shows "parseFloat ds = Num (of_nat (dec ds))"
proof -
  obtain d r where ds: "ds = d # r" using assms(1) by (cases ds) auto
  have a: "\<not> startsWith ds [hyphen]" using assms(2) digit_not_sep[of d] by (simp add: ds)
  have b: "takeWhile is_digit ds = ds" by (rule takeWhile_all[OF assms(2)])
  have c: "dropWhile is_digit ds = []" using assms(2) by simp
  have d: "[] = (if startsWith [] [dot] then takeWhile is_digit (drop 1 []) else [])" by simp
  show ?thesis using parseFloat_parts[OF a b c d] assms(1) by (simp add: dec_def)
qed



lemma search_bol: "0 < i \<Longrightarrow> search_from (Cat Bol r) i s = None"
  by (induction s arbitrary: i) (simp_all add: match_at_def)

lemma rx_match_bol: "rx_match (Cat Bol r) s = match_at (Cat Bol r) 0 s"
  by (cases s) (simp_all add: rx_match_def search_bol split: option.split)

lemma rep_exact:
  "0 < n \<Longrightarrow> rep_m p n (Some n) i s k =
     (case s of [] \<Rightarrow> None
      | x # xs \<Rightarrow> if p x then rep_m p (n - 1) (Some (n - 1)) (Suc i) xs k else None)"
  by (cases s) (auto split: option.splits)

lemma rep_zero: "rep_m p 0 (Some 0) i s k = k i s"
  by (cases s) auto

lemma iso_guard:
  "rx_test re_iso_date s =
     (\<exists>a b c d e f g h r. s = a # b # c # d # hyphen # e # f # hyphen # g # h # r
        \<and> is_digit a \<and> is_digit b \<and> is_digit c \<and> is_digit d
        \<and> is_digit e \<and> is_digit f \<and> is_digit g \<and> is_digit h)"
  unfolding rx_test_def re_iso_date_def seq_def foldr.simps o_apply rx_match_bol
  by (auto simp: match_at_def digits_def lit_def asc_def rep_exact rep_zero cs_def hyphen_def
      split: list.splits)

lemma dmy_guard:
  "rx_test re_dmy_date s =
     (\<exists>a b c d e f g h r. s = a # b # 47 # c # d # 47 # e # f # g # h # r
        \<and> is_digit a \<and> is_digit b \<and> is_digit c \<and> is_digit d
        \<and> is_digit e \<and> is_digit f \<and> is_digit g \<and> is_digit h)"
  unfolding rx_test_def re_dmy_date_def seq_def foldr.simps o_apply rx_match_bol
  by (auto simp: match_at_def digits_def lit_def asc_def rep_exact rep_zero cs_def
      split: list.splits)


lemma num_times_nan: "(num_times x n = NaN) = (n = NaN)"
  by (cases n) auto

lemma num_times_one: "num_times 1 n = n"
  by (cases n) auto

lemma set_replace_first: "set (replace_first a b s) \<subseteq> insert b (set s)"
  by (induction s) auto

lemma parseNumber_unguarded:
  assumes "s \<noteq> []" "\<not> rx_test re_iso_date s" "\<not> rx_test re_dmy_date s"
  shows "parseNumber s =
     (let cleaned = filter cls_neg s;
          isNegative = startsWith cleaned [hyphen];
          cleaned = (if isNegative then drop 1 cleaned else cleaned);
          cleaned =
            (if comma \<in> set cleaned \<and> dot \<in> set cleaned then
               (if lastIndexOf cleaned comma > lastIndexOf cleaned dot
                then replace_first comma dot (filter (\<lambda>c. c \<noteq> dot) cleaned)
                else filter (\<lambda>c. c \<noteq> comma) cleaned)
             else if comma \<in> set cleaned then
               (if length (last (split comma cleaned)) \<noteq> 3
                then map (\<lambda>c. if c = comma then dot else c) cleaned
                else filter (\<lambda>c. c \<noteq> comma) cleaned)
             else cleaned)
      in num_times (if isNegative then - 1 else 1) (parseFloat cleaned))"
  unfolding parseNumber_def Let_def lastIndexOf_pos using assms by (simp only: if_False)

lemma sep_shape:
  assumes "is_digit d"
  shows "\<exists>r'. (if comma \<in> set (d # r) \<and> dot \<in> set (d # r) then
               (if lastIndexOf (d # r) comma > lastIndexOf (d # r) dot
                then replace_first comma dot (filter (\<lambda>c. c \<noteq> dot) (d # r))
                else filter (\<lambda>c. c \<noteq> comma) (d # r))
             else if comma \<in> set (d # r) then
               (if length (last (split comma (d # r))) \<noteq> 3
                then map (\<lambda>c. if c = comma then dot else c) (d # r)
                else filter (\<lambda>c. c \<noteq> comma) (d # r))
             else d # r) = d # r'"
  using digit_not_sep[OF assms] by (simp del: split.simps)

lemma parseNumber_digit_first:
  assumes "is_digit d" "filter cls_neg s = d # r \<or> filter cls_neg s = hyphen # d # r"
  shows "parseNumber s \<noteq> NaN"
proof (cases "s = [] \<or> rx_test re_iso_date s \<or> rx_test re_dmy_date s")
  case True
  then show ?thesis by (auto simp: parseNumber_def)
next
  case False
  then have g: "s \<noteq> []" "\<not> rx_test re_iso_date s" "\<not> rx_test re_dmy_date s" by auto
  have c2: "(if startsWith (filter cls_neg s) [hyphen] then drop 1 (filter cls_neg s)
             else filter cls_neg s) = d # r"
    using assms digit_not_sep[OF assms(1)] by auto
  obtain r' where r': "(if comma \<in> set (d # r) \<and> dot \<in> set (d # r) then
               (if lastIndexOf (d # r) comma > lastIndexOf (d # r) dot
                then replace_first comma dot (filter (\<lambda>c. c \<noteq> dot) (d # r))
                else filter (\<lambda>c. c \<noteq> comma) (d # r))
             else if comma \<in> set (d # r) then
               (if length (last (split comma (d # r))) \<noteq> 3
                then map (\<lambda>c. if c = comma then dot else c) (d # r)
                else filter (\<lambda>c. c \<noteq> comma) (d # r))
             else d # r) = d # r'"
    using sep_shape[OF assms(1)] by blast
  show ?thesis
    unfolding parseNumber_unguarded[OF g] Let_def c2 r'
    by (simp add: num_times_nan parseFloat_digit_head[OF assms(1)])
qed

lemma parseNumber_no_digit:
  assumes "s \<noteq> []" "\<forall>c\<in>set s. \<not> is_digit c"
  shows "parseNumber s = NaN"
proof -
  have g: "\<not> rx_test re_iso_date s" "\<not> rx_test re_dmy_date s"
    using assms(2) by (auto simp: iso_guard dmy_guard)
  have nd: "\<not> is_digit dot" by (simp add: is_digit_def dot_def)
  define c2 where "c2 = (if startsWith (filter cls_neg s) [hyphen] then drop 1 (filter cls_neg s)
                         else filter cls_neg s)"
  have n2: "\<forall>c\<in>set c2. \<not> is_digit c"
    using assms(2) by (auto simp: c2_def dest: in_set_dropD)
  have f1: "\<forall>c\<in>set (replace_first comma dot (filter (\<lambda>c. c \<noteq> dot) c2)). \<not> is_digit c"
    using n2 nd set_replace_first[of comma dot "filter (\<lambda>c. c \<noteq> dot) c2"] by auto
  have f2: "\<forall>c\<in>set (filter (\<lambda>c. c \<noteq> comma) c2). \<not> is_digit c" using n2 by auto
  have f3: "\<forall>c\<in>set (map (\<lambda>c. if c = comma then dot else c) c2). \<not> is_digit c"
    using n2 nd by auto
  have fin: "\<forall>c\<in>set (if comma \<in> set c2 \<and> dot \<in> set c2 then
               (if lastIndexOf c2 comma > lastIndexOf c2 dot
                then replace_first comma dot (filter (\<lambda>c. c \<noteq> dot) c2)
                else filter (\<lambda>c. c \<noteq> comma) c2)
             else if comma \<in> set c2 then
               (if length (last (split comma c2)) \<noteq> 3
                then map (\<lambda>c. if c = comma then dot else c) c2
                else filter (\<lambda>c. c \<noteq> comma) c2)
             else c2). \<not> is_digit c"
    using n2 f1 f2 f3 by (simp only: split: if_split) blast
  show ?thesis
    unfolding parseNumber_unguarded[OF assms(1) g] Let_def c2_def[symmetric]
    by (simp only: num_times_nan parseFloat_no_digit[OF fin])
qed






lemma dec_append: "dec (xs @ ys) = dec xs * 10 ^ length ys + dec ys"
proof (induction ys rule: rev_induct)
  case Nil
  then show ?case by (simp add: dec_def)
next
  case (snoc y ys)
  have "dec (xs @ ys @ [y]) = 10 * dec (xs @ ys) + (y - 48)" by (simp add: dec_def)
  also have "\<dots> = 10 * (dec xs * 10 ^ length ys + dec ys) + (y - 48)" by (simp add: snoc)
  also have "\<dots> = dec xs * 10 ^ length (ys @ [y]) + dec (ys @ [y])"
    by (simp add: dec_def algebra_simps)
  finally show ?case by simp
qed


lemma dec_pos: "dec xs \<noteq> 0 \<Longrightarrow> dec (xs @ ys) \<noteq> 0"
  by (simp add: dec_append)

section \<open>The number normalizer\<close>

text \<open>
  Claim C2, as stated: \<open>parseNumber\<close> returns 0 for empty input and never returns
  not-a-number. The second half fails: a non-empty input without any digit, such as
  \<open>abc\<close> or a lone minus sign, is stripped to a residue that \<open>parseFloat\<close> cannot
  read, and the result is not-a-number.
\<close>

theorem parseNumber_nan_counterexample:
  "parseNumber (asc ''abc'') = NaN \<and> parseNumber (asc ''-'') = NaN"
  by (simp add: chars strs rx norm)

text \<open>
  Claim C2, amended: \<open>parseNumber\<close> returns 0 for empty input; it returns a number
  (never not-a-number) whenever the first character that survives the stripping, after
  one optional leading minus sign, is a digit; and it returns not-a-number for every
  non-empty input that contains no digit.
\<close>

theorem parseNumber_nan_cases:
  "parseNumber [] = Num 0
   \<and> (is_digit d \<and> (filter cls_neg s = d # r \<or> filter cls_neg s = hyphen # d # r)
        \<longrightarrow> parseNumber s \<noteq> NaN)
   \<and> (t \<noteq> [] \<and> (\<forall>c\<in>set t. \<not> is_digit c) \<longrightarrow> parseNumber t = NaN)"
  using parseNumber_digit_first[of d s r] parseNumber_no_digit[of t]
  by (auto simp: parseNumber_def)

theorem parseNumber_nan_cases_witness:
  "parseNumber [] = Num 0 \<and> parseNumber (asc ''$-42,66'') \<noteq> NaN
   \<and> parseNumber (asc ''USDT'') = NaN"
  using parseNumber_nan_cases[of 52 "asc ''$-42,66''" "asc ''2,66''" "asc ''USDT''"]
  by (simp add: chars)




text \<open>
  Claim C10: the first guard of \<open>parseNumber\<close> fires exactly on inputs that begin with
  four digits, a minus sign, two digits, a minus sign and two digits; the second exactly
  on inputs that begin with two digits, a slash, two digits, a slash and four digits. So
  neither fires on a slash date whose day or month has a single digit. For such a token
  (a day of one digit, or a day of two digits and a month of one, with no dot, comma or
  minus sign after them) the result is the number whose decimal digits are all the
  digits of the token in order; it is not 0 unless the day is. The witness is the token
  \<open>1/12/2025 10:19:16\<close>, which yields 1122025101916.
\<close>

theorem parseNumber_short_date_token:
  assumes day: "day \<noteq> []" "\<forall>c\<in>set day. is_digit c"
    and month: "month \<noteq> []" "\<forall>c\<in>set month. is_digit c"
    and short: "length day = 1 \<or> (length day = 2 \<and> length month = 1)"
    and rest: "\<forall>c\<in>set rest. c \<noteq> dot \<and> c \<noteq> comma \<and> c \<noteq> hyphen"
  shows "rx_test re_iso_date u =
           (\<exists>a b c d e f g h r. u = a # b # c # d # hyphen # e # f # hyphen # g # h # r
              \<and> is_digit a \<and> is_digit b \<and> is_digit c \<and> is_digit d
              \<and> is_digit e \<and> is_digit f \<and> is_digit g \<and> is_digit h)
       \<and> rx_test re_dmy_date u =
           (\<exists>a b c d e f g h r. u = a # b # 47 # c # d # 47 # e # f # g # h # r
              \<and> is_digit a \<and> is_digit b \<and> is_digit c \<and> is_digit d
              \<and> is_digit e \<and> is_digit f \<and> is_digit g \<and> is_digit h)
       \<and> \<not> rx_test re_iso_date (day @ 47 # month @ 47 # rest)
       \<and> \<not> rx_test re_dmy_date (day @ 47 # month @ 47 # rest)
       \<and> parseNumber (day @ 47 # month @ 47 # rest)
           = Num (of_nat (dec (day @ month @ filter is_digit rest)))
       \<and> (dec day \<noteq> 0 \<longrightarrow> parseNumber (day @ 47 # month @ 47 # rest) \<noteq> Num 0)"
proof -
  define s where "s = day @ 47 # month @ 47 # rest"
  have nd: "\<not> is_digit 47" by (simp add: is_digit_def)
  have g: "\<not> rx_test re_iso_date s" "\<not> rx_test re_dmy_date s"
  proof -
    from short consider a where "day = [a]" | a b c where "day = [a, b]" "month = [c]"
      by (cases day; cases "tl day"; cases month; cases "tl month") auto
    then show "\<not> rx_test re_iso_date s" "\<not> rx_test re_dmy_date s"
      using nd by (cases; auto simp: s_def iso_guard dmy_guard hyphen_def)+
  qed
  have ne: "s \<noteq> []" by (simp add: s_def)
  have keep: "filter cls_neg s = day @ month @ filter is_digit rest"
  proof -
    have "filter cls_neg rest = filter is_digit rest"
      using rest by (intro filter_cong) (auto simp: cls_neg_def)
    moreover have "filter cls_neg day = day" "filter cls_neg month = month"
      using day(2) month(2) by (auto simp: cls_neg_def filter_id_conv)
    moreover have "\<not> cls_neg 47" by (simp add: chars)
    ultimately show ?thesis by (simp add: s_def)
  qed
  define ds where "ds = day @ month @ filter is_digit rest"
  have dd: "\<forall>c\<in>set ds. is_digit c" using day(2) month(2) by (auto simp: ds_def)
  have dne: "ds \<noteq> []" using day(1) by (simp add: ds_def)
  have sw: "\<not> startsWith ds [hyphen]"
    using dd dne digit_not_sep[of "hd ds"] by (cases ds) auto
  have nc: "comma \<notin> set ds" "dot \<notin> set ds"
    using dd digit_not_sep by blast+
  have val: "parseNumber s = Num (of_nat (dec ds))"
    unfolding parseNumber_unguarded[OF ne g] Let_def keep ds_def[symmetric]
    using sw nc by (simp add: num_times_one parseFloat_digits[OF dne dd])
  have nz: "dec day \<noteq> 0 \<longrightarrow> parseNumber s \<noteq> Num 0"
    using val dec_pos[of day "month @ filter is_digit rest"] by (simp add: ds_def)
  have "\<not> rx_test re_iso_date (day @ 47 # month @ 47 # rest)
       \<and> \<not> rx_test re_dmy_date (day @ 47 # month @ 47 # rest)
       \<and> parseNumber (day @ 47 # month @ 47 # rest)
           = Num (of_nat (dec (day @ month @ filter is_digit rest)))
       \<and> (dec day \<noteq> 0 \<longrightarrow> parseNumber (day @ 47 # month @ 47 # rest) \<noteq> Num 0)"
    using g val nz by (simp add: s_def ds_def)
  then show ?thesis using iso_guard[of u] dmy_guard[of u] by blast
qed

theorem parseNumber_short_date_token_witness:
  "parseNumber (asc ''1/12/2025 10:19:16'') = Num 1122025101916
   \<and> parseNumber (asc ''1/12/2025 10:19:16'') \<noteq> Num 0
   \<and> \<not> rx_test re_dmy_date (asc ''1/12/2025 10:19:16'')"
  using parseNumber_short_date_token[of "asc ''1''" "asc ''12''" "asc ''2025 10:19:16''"]
  by (simp add: chars dec_def)

section \<open>The date normalizer\<close>

lemmas date_defs = re_custom_date_def parseCustomDate_def date_token_def canonical_def

lemma run1: "list_all P xs \<Longrightarrow> length xs = 1 \<or> length xs = 2 \<Longrightarrow>
    (\<exists>a. xs = [a] \<and> P a) \<or> (\<exists>a b. xs = [a, b] \<and> P a \<and> P b)"
  by (cases xs; cases "tl xs") auto

lemma run2: "list_all P xs \<Longrightarrow> length xs = 2 \<Longrightarrow> \<exists>a b. xs = [a, b] \<and> P a \<and> P b"
  by (cases xs; cases "tl xs") auto

lemma run4: "list_all P xs \<Longrightarrow> length xs = 4 \<Longrightarrow>
    \<exists>a b c d. xs = [a, b, c, d] \<and> P a \<and> P b \<and> P c \<and> P d"
  by (auto simp: numeral_eq_Suc length_Suc_conv)

lemma date_plain:
  assumes "(\<exists>a. day = [a] \<and> is_digit a) \<or> (\<exists>a b. day = [a, b] \<and> is_digit a \<and> is_digit b)"
    and "(\<exists>a. month = [a] \<and> is_digit a) \<or> (\<exists>a b. month = [a, b] \<and> is_digit a \<and> is_digit b)"
    and "\<exists>a b c d. year = [a, b, c, d] \<and> is_digit a \<and> is_digit b \<and> is_digit c \<and> is_digit d"
    and "(\<exists>a. hour = [a] \<and> is_digit a) \<or> (\<exists>a b. hour = [a, b] \<and> is_digit a \<and> is_digit b)"
    and "\<exists>a b. minute = [a, b] \<and> is_digit a \<and> is_digit b"
    and "\<exists>a b. second = [a, b] \<and> is_digit a \<and> is_digit b"
  shows "parseCustomDate (date_token day month year hour minute second)
         = Some (canonical year month day (dec hour) minute second)"
  using assms
  by (elim disjE exE conjE; simp add: chars strs rx date_defs)


lemma date_sa:
  assumes "(\<exists>a. day = [a] \<and> is_digit a) \<or> (\<exists>a b. day = [a, b] \<and> is_digit a \<and> is_digit b)"
    and "(\<exists>a. month = [a] \<and> is_digit a) \<or> (\<exists>a b. month = [a, b] \<and> is_digit a \<and> is_digit b)"
    and "\<exists>a b c d. year = [a, b, c, d] \<and> is_digit a \<and> is_digit b \<and> is_digit c \<and> is_digit d"
    and "(\<exists>a. hour = [a] \<and> is_digit a) \<or> (\<exists>a b. hour = [a, b] \<and> is_digit a \<and> is_digit b)"
    and "\<exists>a b. minute = [a, b] \<and> is_digit a \<and> is_digit b"
    and "\<exists>a b. second = [a, b] \<and> is_digit a \<and> is_digit b"
  shows "parseCustomDate (date_token day month year hour minute second @ asc '' SA'')
         = Some (canonical year month day (if dec hour = 12 then 0 else dec hour) minute second)"
  using assms
  by (elim disjE exE conjE; simp add: chars strs rx date_defs)

lemma date_ch:
  assumes "(\<exists>a. day = [a] \<and> is_digit a) \<or> (\<exists>a b. day = [a, b] \<and> is_digit a \<and> is_digit b)"
    and "(\<exists>a. month = [a] \<and> is_digit a) \<or> (\<exists>a b. month = [a, b] \<and> is_digit a \<and> is_digit b)"
    and "\<exists>a b c d. year = [a, b, c, d] \<and> is_digit a \<and> is_digit b \<and> is_digit c \<and> is_digit d"
    and "(\<exists>a. hour = [a] \<and> is_digit a) \<or> (\<exists>a b. hour = [a, b] \<and> is_digit a \<and> is_digit b)"
    and "\<exists>a b. minute = [a, b] \<and> is_digit a \<and> is_digit b"
    and "\<exists>a b. second = [a, b] \<and> is_digit a \<and> is_digit b"
  shows "parseCustomDate (date_token day month year hour minute second @ asc '' CH'')
         = Some (canonical year month day (if dec hour < 12 then dec hour + 12 else dec hour)
                   minute second)"
  using assms
  by (elim disjE exE conjE; simp add: chars strs rx date_defs)

text \<open>
  Claim C7: a token \<open>D(D)/M(M)/YYYY H(H):MM:SS\<close>, alone or followed by the morning
  marker SA or the afternoon marker CH, is turned into \<open>YYYY-MM-DDTHH:MM:SS\<close> with
  month, day and hour padded to width 2. Without a marker the hour is kept; with SA the
  hour 12 becomes 0; with CH 12 is added unless the hour is already 12 or more. The
  witness gives the two values of the claim for \<open>17/12/2025 10:16:52\<close>.
\<close>

theorem parseCustomDate_canonical:
  assumes "list_all is_digit day" "length day = 1 \<or> length day = 2"
    and "list_all is_digit month" "length month = 1 \<or> length month = 2"
    and "list_all is_digit year" "length year = 4"
    and "list_all is_digit hour" "length hour = 1 \<or> length hour = 2"
    and "list_all is_digit minute" "length minute = 2"
    and "list_all is_digit second" "length second = 2"
  shows "parseCustomDate (date_token day month year hour minute second)
           = Some (canonical year month day (dec hour) minute second)
       \<and> parseCustomDate (date_token day month year hour minute second @ asc '' SA'')
           = Some (canonical year month day (if dec hour = 12 then 0 else dec hour)
                     minute second)
       \<and> parseCustomDate (date_token day month year hour minute second @ asc '' CH'')
           = Some (canonical year month day (if dec hour < 12 then dec hour + 12 else dec hour)
                     minute second)"
proof -
  note d = run1[OF assms(1,2)] and m = run1[OF assms(3,4)] and y = run4[OF assms(5,6)]
    and h = run1[OF assms(7,8)] and mi = run2[OF assms(9,10)] and s = run2[OF assms(11,12)]
  show ?thesis
    using date_plain[OF d m y h mi s] date_sa[OF d m y h mi s] date_ch[OF d m y h mi s]
    by simp
qed

theorem parseCustomDate_canonical_witness:
  "parseCustomDate (asc ''17/12/2025 10:16:52 SA'') = Some (asc ''2025-12-17T10:16:52'')
   \<and> parseCustomDate (asc ''17/12/2025 10:16:52 CH'') = Some (asc ''2025-12-17T22:16:52'')
   \<and> parseCustomDate (asc ''17/12/2025 10:16:52'') = Some (asc ''2025-12-17T10:16:52'')
   \<and> parseCustomDate (asc ''1/2/2025 12:05:09 SA'') = Some (asc ''2025-02-01T00:05:09'')
   \<and> parseCustomDate (asc ''1/2/2025 12:05:09 CH'') = Some (asc ''2025-02-01T12:05:09'')"
  using parseCustomDate_canonical[of "asc ''17''" "asc ''12''" "asc ''2025''" "asc ''10''"
      "asc ''16''" "asc ''52''"]
    parseCustomDate_canonical[of "asc ''1''" "asc ''2''" "asc ''2025''" "asc ''12''"
      "asc ''05''" "asc ''09''"]
  by (simp add: chars date_token_def canonical_def padStart2_def dec_def toString.simps)

section \<open>The tabular detector\<close>

lemma lead_digit: "rx_test re_lead_digit s = (\<exists>c r. s = c # r \<and> is_digit c)"
  unfolding rx_test_def re_lead_digit_def seq_def foldr.simps o_apply rx_match_bol
  by (cases s) (auto simp: match_at_def)

text \<open>
  Claim C4, as stated: the tabular detector matches only text that splits on tabs into
  exactly 8 fields. This fails: the detector only rejects fewer than 8 fields, so a row
  of 9 fields is matched as well, and its ninth field is ignored.
\<close>

theorem parseFormatTabular_nine_fields:
  "length (split tab row9) = 9 \<and>
   parseFormatTabular row9 =
     Some \<lparr>p_leverage = Some (Num 100), p_coin = Some (asc ''ETH''),
           p_quantity = Some (Num 5), p_openPrice = Some (Num 1),
           p_closePrice = Some (Num 2), p_openTime = Some None, p_closeTime = Some None,
           p_fee = Some (Num 6), p_pnl = Some (Num 7)\<rparr>"
  by (simp add: row9_def chars strs rx norm tabular parts)

text \<open>
  Claim C4, amended: the tabular detector matches exactly the texts that split on tab
  characters into at least 8 fields and whose first field, with surrounding white space
  removed, begins with a digit. The first eight fields are mapped by position to
  openPrice, closePrice, openTime, closeTime, quantity, symbol, fee and pnl, the numbers
  through \<open>parseNumber\<close>, the times through \<open>parseCustomDate\<close>, the symbol trimmed and
  the fee through the absolute value. The witness is the row of the specification: it
  yields openPrice 2860.90, closePrice 2827.45, quantity 15, symbol ETH, fee 42.66 and
  pnl -501.75.
\<close>

theorem parseFormatTabular_fields:
  "(parseFormatTabular text \<noteq> None)
     = (8 \<le> length (split tab text) \<and> (\<exists>c r. trim (split tab text ! 0) = c # r \<and> is_digit c))
   \<and> (parseFormatTabular text = Some p \<longrightarrow>
        p = \<lparr>p_leverage = Some (Num 100),
             p_coin = Some (trim (split tab text ! 5)),
             p_quantity = Some (parseNumber (split tab text ! 4)),
             p_openPrice = Some (parseNumber (split tab text ! 0)),
             p_closePrice = Some (parseNumber (split tab text ! 1)),
             p_openTime = Some (parseCustomDate (split tab text ! 2)),
             p_closeTime = Some (parseCustomDate (split tab text ! 3)),
             p_fee = Some (num_abs (parseNumber (split tab text ! 6))),
             p_pnl = Some (parseNumber (split tab text ! 7))\<rparr>)"
  by (auto simp: parseFormatTabular_def Let_def lead_digit run_steps_def new_trade_def)

theorem parseFormatTabular_fields_witness:
  "parseFormatTabular row =
     Some \<lparr>p_leverage = Some (Num 100), p_coin = Some (asc ''ETH''),
           p_quantity = Some (Num 15), p_openPrice = Some (Num (286090 / 100)),
           p_closePrice = Some (Num (282745 / 100)),
           p_openTime = Some (Some (asc ''2025-12-01T10:19:16'')),
           p_closeTime = Some (Some (asc ''2025-12-01T10:39:12'')),
           p_fee = Some (Num (4266 / 100)), p_pnl = Some (Num (- 50175 / 100))\<rparr>"
proof -
  have sp: "split tab row = [asc ''2860,90'', asc ''2827,45'', asc ''1/12/2025 10:19:16'',
      asc ''1/12/2025 10:39:12'', asc ''15,00'', asc ''ETH'', asc ''42,66'', asc ''-501,75'']"
    by (simp add: row_def chars)
  have len: "8 \<le> length (split tab row)" unfolding sp by simp
  have dig: "\<exists>c r. trim (split tab row ! 0) = c # r \<and> is_digit c"
    unfolding sp by (simp add: trim_def chars)
  have "parseFormatTabular row \<noteq> None"
    using parseFormatTabular_fields[of row, THEN conjunct1] len dig by blast
  then obtain p where p: "parseFormatTabular row = Some p" by auto
  have "p = \<lparr>p_leverage = Some (Num 100),
             p_coin = Some (trim (split tab row ! 5)),
             p_quantity = Some (parseNumber (split tab row ! 4)),
             p_openPrice = Some (parseNumber (split tab row ! 0)),
             p_closePrice = Some (parseNumber (split tab row ! 1)),
             p_openTime = Some (parseCustomDate (split tab row ! 2)),
             p_closeTime = Some (parseCustomDate (split tab row ! 3)),
             p_fee = Some (num_abs (parseNumber (split tab row ! 6))),
             p_pnl = Some (parseNumber (split tab row ! 7))\<rparr>"
    using parseFormatTabular_fields[of row p, THEN conjunct2] p by simp
  then show ?thesis unfolding p sp by (simp add: chars strs rx norm)
qed

section \<open>The mobile detector\<close>

lemma on_match_simps:
  "on_match None f t = t" "on_match (Some mt) f t = f mt t"
  by (simp_all add: on_match_def)

lemma p_pnl_on_match:
  "(\<And>mt u. p_pnl (f mt u) = p_pnl u) \<Longrightarrow> p_pnl (on_match mo f t) = p_pnl t"
  by (cases mo) (simp_all add: on_match_def)

text \<open>
  Claim C8: on a text with the caption Time Opened, the mobile detector takes pnl from
  the number that follows the caption Closing PnL whenever that pattern matches, whether
  or not a Position PnL caption is present as well; only when it does not match is the
  number after Position PnL used, and pnl is left unset when neither matches. The
  witness is a text with both captions, Position PnL first: pnl is the Closing PnL
  value -3, not the Position PnL value 5.
\<close>

theorem mobile_pnl_prefers_closing:
  assumes "includes_str text (asc ''Time Opened'')"
  shows "\<exists>p. parseFormatBitunixMobile text = Some p
           \<and> p_pnl p =
               (case rx_match re_closing_pnl text of
                  Some closing \<Rightarrow> Some (parseNumber (capture closing 1))
                | None \<Rightarrow>
                    (case rx_match re_pos_pnl text of
                       Some pos \<Rightarrow> Some (parseNumber (capture pos 1))
                     | None \<Rightarrow> None))"
  using assms
  by (simp add: parseFormatBitunixMobile_def run_steps_def p_pnl_on_match on_match_simps
      new_trade_def split: option.split)

lemma mobile_pnl_matches:
  "(case rx_match re_closing_pnl text_mobile_pnl of
      Some closing \<Rightarrow> Some (parseNumber (capture closing 1))
    | None \<Rightarrow> None) = Some (Num (- 3))"
  "(case rx_match re_pos_pnl text_mobile_pnl of
      Some pos \<Rightarrow> Some (parseNumber (capture pos 1))
    | None \<Rightarrow> None) = Some (Num 5)"
   apply (simp add: text_mobile_pnl_def chars strs rx norm parts mobile)
  apply (simp add: text_mobile_pnl_def chars strs rx norm parts mobile)
  done

theorem mobile_pnl_prefers_closing_witness:
  "map_option p_pnl (parseFormatBitunixMobile text_mobile_pnl) = Some (Some (Num (- 3)))
   \<and> map_option (\<lambda>pos. parseNumber (capture pos 1)) (rx_match re_pos_pnl text_mobile_pnl)
       = Some (Num 5)"
proof -
  have inc: "includes_str text_mobile_pnl (asc ''Time Opened'')"
    by (simp add: text_mobile_pnl_def chars)
  obtain p where p: "parseFormatBitunixMobile text_mobile_pnl = Some p"
    and pnl: "p_pnl p =
               (case rx_match re_closing_pnl text_mobile_pnl of
                  Some closing \<Rightarrow> Some (parseNumber (capture closing 1))
                | None \<Rightarrow>
                    (case rx_match re_pos_pnl text_mobile_pnl of
                       Some pos \<Rightarrow> Some (parseNumber (capture pos 1))
                     | None \<Rightarrow> None))"
    using mobile_pnl_prefers_closing[OF inc] by blast
  obtain closing where c: "rx_match re_closing_pnl text_mobile_pnl = Some closing"
      "parseNumber (capture closing 1) = Num (- 3)"
    using mobile_pnl_matches(1) by (cases "rx_match re_closing_pnl text_mobile_pnl") auto
  obtain pos where q: "rx_match re_pos_pnl text_mobile_pnl = Some pos"
      "parseNumber (capture pos 1) = Num 5"
    using mobile_pnl_matches(2) by (cases "rx_match re_pos_pnl text_mobile_pnl") auto
  have "p_pnl p = Some (Num (- 3))" unfolding pnl c(1) using c(2) by simp
  then show ?thesis unfolding p q(1) using q(2) by simp
qed

section \<open>The dispatcher\<close>

lemma smartParse_from:
  "smartParse text = Some p \<Longrightarrow> \<exists>d\<in>set detectors. d text = Some p"
  by (auto simp: smartParse_def or_else_def detectors_def split: option.splits)

lemma smartParse_index:
  assumes "i < length detectors" "(detectors ! i) text = Some p"
    and "\<forall>j<i. (detectors ! j) text = None"
  shows "smartParse text = Some p"
proof -
  have "i = 0 \<or> i = 1 \<or> i = 2 \<or> i = 3 \<or> i = 4 \<or> i = 5"
    using assms(1) by (auto simp: detectors_def)
  moreover have "\<forall>j<i. (detectors ! j) text = None" by (rule assms(3))
  ultimately show ?thesis
    using assms(2)
    by (elim disjE; simp add: detectors_def smartParse_def or_else_def All_less_Suc
        eval_nat_numeral)
qed

lemma gate_new_trade: "\<not> gate new_trade"
  by (simp add: gate_def new_trade_def truthy_opt_num_def)

lemma grid_en_tabular: "parseFormatTabular text_grid_en = None"
  by (simp add: text_grid_en_def chars tabular)

lemma grid_en_vn: "parseFormatVN text_grid_en = None"
  by (simp add: text_grid_en_def chars vn)

lemma grid_en_grid: "parseFormatAivoraGrid text_grid_en = Some new_trade"
  by (simp add: text_grid_en_def chars strs rx parts grid)

lemma grid_en_mobile: "parseFormatBitunixMobile text_grid_en = None"
  by (simp add: text_grid_en_def chars mobile)

lemma grid_en_en:
  "parseFormatAivoraEn text_grid_en =
     Some (new_trade\<lparr>p_coin := Some (asc ''ETH''), p_quantity := Some (Num 2),
                       p_openPrice := Some (Num 5)\<rparr>)"
  by (simp add: text_grid_en_def chars strs rx norm parts en)

lemma bare_mobile:
  "parseFormatTabular (asc ''Time Opened'') = None"
  "parseFormatVN (asc ''Time Opened'') = None"
  "parseFormatAivoraGrid (asc ''Time Opened'') = None"
  "parseFormatBitunixMobile (asc ''Time Opened'') = Some new_trade"
  "parseFormatAivoraEn (asc ''Time Opened'') = None"
  "parseFormatBitunixWeb (asc ''Time Opened'') = None"
       apply (simp add: chars tabular)
      apply (simp add: chars vn)
     apply (simp add: chars grid)
    apply (simp add: chars strs rx parts mobile)
   apply (simp add: chars en)
  apply (simp add: chars web)
  done

text \<open>
  Claim C1, as stated: when a detector's anchor matches but its result fails the
  acceptance gate, the cascade goes on to the next detector before it falls back to the
  collaborator. This fails. On the example text the grid detector finds its anchor and
  returns a record without a price, which fails the gate; the older English detector,
  lower in the order, would return a record that passes it; the dispatcher does not try
  it and calls the collaborator. The cascade with the gate applied per detector would
  have returned the English detector's record.
\<close>

theorem gate_failure_skips_lower_detectors:
  "parseFormatAivoraGrid text_grid_en = Some new_trade \<and> \<not> gate new_trade
   \<and> parseFormatAivoraEn text_grid_en =
       Some (new_trade\<lparr>p_coin := Some (asc ''ETH''), p_quantity := Some (Num 2),
                         p_openPrice := Some (Num 5)\<rparr>)
   \<and> gate (new_trade\<lparr>p_coin := Some (asc ''ETH''), p_quantity := Some (Num 2),
                        p_openPrice := Some (Num 5)\<rparr>)
   \<and> parseTradeTextSmart sample_ai [] text_grid_en = ([text_grid_en], Inr sample_trade)
   \<and> spec_gated_cascade sample_ai [] text_grid_en =
       ([], Inr (merge_defaults []
          (new_trade\<lparr>p_coin := Some (asc ''ETH''), p_quantity := Some (Num 2),
                       p_openPrice := Some (Num 5)\<rparr>)))"
  by (simp add: grid_en_tabular grid_en_vn grid_en_grid grid_en_mobile grid_en_en
      gate_new_trade parseTradeTextSmart_def smartParse_def or_else_def spec_gated_cascade_def
      detectors_def sample_ai_def)
    (simp add: gate_def new_trade_def truthy_opt_num_def truthy_opt_str_def asc_def)

text \<open>
  Claim C1, amended: the first detector in the order that returns a record decides. If
  its record passes the gate, that record merged over the defaults is returned and the
  collaborator is not called; if it fails the gate, no lower detector is tried and the
  text goes to the collaborator.
\<close>

theorem first_match_decides:
  assumes "i < length detectors" "(detectors ! i) text = Some p"
    and "\<forall>j<i. (detectors ! j) text = None"
  shows "parseTradeTextSmart ai now text
         = (if gate p then ([], Inr (merge_defaults now p)) else ([text], ai text))"
  using smartParse_index[OF assms] by (simp add: parseTradeTextSmart_def)

theorem first_match_decides_witness:
  "parseTradeTextSmart sample_ai [] text_grid_en = ([text_grid_en], Inr sample_trade)"
  using first_match_decides[of 2 text_grid_en new_trade sample_ai "[]"]
  by (simp add: detectors_def grid_en_tabular grid_en_vn grid_en_grid gate_new_trade
      All_less_Suc eval_nat_numeral sample_ai_def)

text \<open>
  Claim C6: when no detector returns a record that passes the gate, the dispatcher calls
  the collaborator exactly once, with the text as it was given, and returns the
  collaborator's answer as it is, without the defaults. The witness is a text on which
  the mobile detector matches its anchor and fails the gate.
\<close>

theorem ai_fallback_exactly_once:
  assumes "\<forall>d\<in>set detectors. \<forall>p. d text = Some p \<longrightarrow> \<not> gate p"
  shows "parseTradeTextSmart ai now text = ([text], ai text)"
proof (cases "smartParse text")
  case None
  then show ?thesis by (simp add: parseTradeTextSmart_def)
next
  case (Some p)
  then have "\<not> gate p" using assms smartParse_from by blast
  then show ?thesis using Some by (simp add: parseTradeTextSmart_def)
qed

theorem ai_fallback_exactly_once_witness:
  "parseTradeTextSmart sample_ai [] (asc ''Time Opened'')
     = ([asc ''Time Opened''], Inr sample_trade)"
  using ai_fallback_exactly_once[of "asc ''Time Opened''" sample_ai "[]"]
  by (simp add: detectors_def bare_mobile gate_new_trade sample_ai_def)

lemma vn_tabular: "parseFormatTabular text_vn = None"
  by (simp add: text_vn_def chars tabular vn)

lemma vn_vn:
  "parseFormatVN text_vn =
     Some (new_trade\<lparr>p_quantity := Some (Num 2), p_openPrice := Some (Num 5)\<rparr>)"
  by (simp add: text_vn_def chars strs rx norm parts vn)

lemma row_nan_tabular:
  "parseFormatTabular row_nan =
     Some \<lparr>p_leverage = Some (Num 100), p_coin = Some (asc ''ETH''),
           p_quantity = Some (Num 5), p_openPrice = Some (Num 1),
           p_closePrice = Some (Num 2), p_openTime = Some None, p_closeTime = Some None,
           p_fee = Some NaN, p_pnl = Some (Num 7)\<rparr>"
  by (simp add: row_nan_def chars strs rx norm tabular parts)

lemma row_neg_tabular:
  "parseFormatTabular row_neg =
     Some \<lparr>p_leverage = Some (Num 100), p_coin = Some (asc ''ETH''),
           p_quantity = Some (Num 5), p_openPrice = Some (Num 1),
           p_closePrice = Some (Num 2), p_openTime = Some None, p_closeTime = Some None,
           p_fee = Some (Num 6), p_pnl = Some (Num 7)\<rparr>"
  by (simp add: row_neg_def chars strs rx norm tabular parts)

lemma row_neg_cascade:
  "parseTradeTextSmart sample_ai [] row_neg =
     ([], Inr \<lparr>uid = [], leverage = Num 100, openPrice = Num 1, closePrice = Some (Num 2),
               openTime = None, closeTime = None, quantity = Num 5, coin = asc ''ETH'',
               fee = Num 6, pnl = Num 7\<rparr>)"
  by (simp add: parseTradeTextSmart_def smartParse_def or_else_def row_neg_tabular gate_def
      truthy_opt_num_def merge_defaults_def or_default_def)

text \<open>
  Claim C5, as stated: two runs of the dispatcher on the same text return the same
  record. This fails: a record accepted without an open time gets the current time as
  its open time, so two runs at different times differ.
\<close>

theorem clock_dependence:
  "parseTradeTextSmart sample_ai (asc ''2025-01-01T00:00:00.000Z'') text_vn
   \<noteq> parseTradeTextSmart sample_ai (asc ''2025-01-01T00:00:01.000Z'') text_vn"
  by (simp add: parseTradeTextSmart_def smartParse_def or_else_def vn_tabular vn_vn gate_def
      new_trade_def truthy_opt_num_def merge_defaults_def or_default_def asc_def)

text \<open>
  Claim C5, amended: with the same collaborator, two runs on the same text return the
  same result whatever the clock shows when no detector record is accepted (the result
  is then the collaborator's answer) and when the accepted record carries a parsed open
  time (which is then the open time of the result). When the accepted record has no
  open time field at all, the open time of the result is the reading of the clock and
  every other field is the same in both runs, so the two results are equal exactly when
  the two readings are. A record whose open time field is present without a value is
  not covered. The witness has one text for each of the three cases.
\<close>

theorem clock_only_as_default_open_time:
  "(smartParse text = None \<or> (\<exists>q. smartParse text = Some q \<and> \<not> gate q) \<longrightarrow>
      parseTradeTextSmart ai now1 text = ([text], ai text)
      \<and> parseTradeTextSmart ai now2 text = parseTradeTextSmart ai now1 text)
   \<and> (smartParse text = Some p \<and> gate p \<and> p_openTime p = Some (Some ts) \<longrightarrow>
      (\<exists>tr. parseTradeTextSmart ai now1 text = ([], Inr tr) \<and> openTime tr = Some ts)
      \<and> parseTradeTextSmart ai now2 text = parseTradeTextSmart ai now1 text)
   \<and> (smartParse text = Some p \<and> gate p \<and> p_openTime p = None \<longrightarrow>
      (\<exists>tr. parseTradeTextSmart ai now1 text = ([], Inr tr) \<and> openTime tr = Some now1
         \<and> parseTradeTextSmart ai now2 text = ([], Inr (tr\<lparr>openTime := Some now2\<rparr>)))
      \<and> (parseTradeTextSmart ai now2 text = parseTradeTextSmart ai now1 text)
          = (now2 = now1))"
  by (auto simp: parseTradeTextSmart_def merge_defaults_def or_default_def)

lemma row_time_tabular:
  "parseFormatTabular row_time =
     Some \<lparr>p_leverage = Some (Num 100), p_coin = Some (asc ''ETH''),
           p_quantity = Some (Num 5), p_openPrice = Some (Num 1),
           p_closePrice = Some (Num 2),
           p_openTime = Some (Some (asc ''2025-02-01T03:04:05'')), p_closeTime = Some None,
           p_fee = Some (Num 6), p_pnl = Some (Num 7)\<rparr>"
  by (simp add: row_time_def chars strs rx norm tabular parts)

theorem clock_only_as_default_open_time_witness:
  "parseTradeTextSmart sample_ai (asc ''2025-01-01T00:00:01.000Z'') (asc ''Time Opened'')
     = parseTradeTextSmart sample_ai (asc ''2025-01-01T00:00:00.000Z'') (asc ''Time Opened'')
   \<and> parseTradeTextSmart sample_ai (asc ''2025-01-01T00:00:01.000Z'') row_time
     = parseTradeTextSmart sample_ai (asc ''2025-01-01T00:00:00.000Z'') row_time
   \<and> (\<exists>tr. parseTradeTextSmart sample_ai (asc ''2025-01-01T00:00:00.000Z'') text_vn
              = ([], Inr tr)
           \<and> openTime tr = Some (asc ''2025-01-01T00:00:00.000Z'')
           \<and> parseTradeTextSmart sample_ai (asc ''2025-01-01T00:00:01.000Z'') text_vn
              = ([], Inr (tr\<lparr>openTime := Some (asc ''2025-01-01T00:00:01.000Z'')\<rparr>)))"
proof (intro conjI)
  have s: "smartParse (asc ''Time Opened'') = Some new_trade"
    by (simp add: smartParse_def or_else_def bare_mobile)
  show "parseTradeTextSmart sample_ai (asc ''2025-01-01T00:00:01.000Z'') (asc ''Time Opened'')
     = parseTradeTextSmart sample_ai (asc ''2025-01-01T00:00:00.000Z'') (asc ''Time Opened'')"
    using clock_only_as_default_open_time[of "asc ''Time Opened''" sample_ai
        "asc ''2025-01-01T00:00:00.000Z''" "asc ''2025-01-01T00:00:01.000Z''",
        THEN conjunct1] s gate_new_trade
    by blast
next
  let ?p = "\<lparr>p_leverage = Some (Num 100), p_coin = Some (asc ''ETH''),
           p_quantity = Some (Num 5), p_openPrice = Some (Num 1),
           p_closePrice = Some (Num 2),
           p_openTime = Some (Some (asc ''2025-02-01T03:04:05'')), p_closeTime = Some None,
           p_fee = Some (Num 6), p_pnl = Some (Num 7)\<rparr>"
  have s: "smartParse row_time = Some ?p"
    by (simp add: smartParse_def or_else_def row_time_tabular)
  show "parseTradeTextSmart sample_ai (asc ''2025-01-01T00:00:01.000Z'') row_time
     = parseTradeTextSmart sample_ai (asc ''2025-01-01T00:00:00.000Z'') row_time"
    using clock_only_as_default_open_time[of row_time sample_ai
        "asc ''2025-01-01T00:00:00.000Z''" "asc ''2025-01-01T00:00:01.000Z''" ?p
        "asc ''2025-02-01T03:04:05''", THEN conjunct2, THEN conjunct1] s
    by (simp add: gate_def truthy_opt_num_def)
next
  let ?p = "new_trade\<lparr>p_quantity := Some (Num 2), p_openPrice := Some (Num 5)\<rparr>"
  have s: "smartParse text_vn = Some ?p"
    by (simp add: smartParse_def or_else_def vn_tabular vn_vn)
  show "\<exists>tr. parseTradeTextSmart sample_ai (asc ''2025-01-01T00:00:00.000Z'') text_vn
              = ([], Inr tr)
           \<and> openTime tr = Some (asc ''2025-01-01T00:00:00.000Z'')
           \<and> parseTradeTextSmart sample_ai (asc ''2025-01-01T00:00:01.000Z'') text_vn
              = ([], Inr (tr\<lparr>openTime := Some (asc ''2025-01-01T00:00:01.000Z'')\<rparr>))"
    using clock_only_as_default_open_time[of text_vn sample_ai
        "asc ''2025-01-01T00:00:00.000Z''" "asc ''2025-01-01T00:00:01.000Z''" ?p,
        THEN conjunct2, THEN conjunct2] s
    by (simp add: gate_def truthy_opt_num_def new_trade_def)
qed

section \<open>The fee\<close>

lemma num_abs_not_negative: "\<not> num_negative (num_abs x)"
  by (cases x) auto

lemma run_steps_inv:
  assumes "P t" "\<forall>s\<in>set steps. \<forall>u. P u \<longrightarrow> P (s u)"
  shows "P (run_steps steps t)"
  using assms unfolding run_steps_def by (induction steps arbitrary: t) auto

lemma on_match_inv: "P t \<Longrightarrow> (\<And>mt. P (f mt t)) \<Longrightarrow> P (on_match mo f t)"
  by (cases mo) (simp_all add: on_match_def)

lemma fee_ok_new: "fee_ok new_trade"
  by (simp add: fee_ok_def new_trade_def)

lemma fee_ok_upd [simp]:
  "fee_ok (t\<lparr>p_coin := a\<rparr>) = fee_ok t"
  "fee_ok (t\<lparr>p_leverage := b\<rparr>) = fee_ok t"
  "fee_ok (t\<lparr>p_quantity := c\<rparr>) = fee_ok t"
  "fee_ok (t\<lparr>p_openPrice := c\<rparr>) = fee_ok t"
  "fee_ok (t\<lparr>p_closePrice := c\<rparr>) = fee_ok t"
  "fee_ok (t\<lparr>p_openTime := d\<rparr>) = fee_ok t"
  "fee_ok (t\<lparr>p_closeTime := d\<rparr>) = fee_ok t"
  "fee_ok (t\<lparr>p_pnl := c\<rparr>) = fee_ok t"
  "fee_ok (t\<lparr>p_fee := Some (num_abs x)\<rparr>)"
  by (simp_all add: fee_ok_def num_abs_not_negative)

lemma on_match_fee: "fee_ok t \<Longrightarrow> (\<And>mt. fee_ok (f mt t)) \<Longrightarrow> fee_ok (on_match mo f t)"
  by (rule on_match_inv)

lemma run_steps_fee:
  "fee_ok t \<Longrightarrow> \<forall>s\<in>set steps. \<forall>u. fee_ok u \<longrightarrow> fee_ok (s u) \<Longrightarrow> fee_ok (run_steps steps t)"
  by (rule run_steps_inv[where P = fee_ok])

lemma tabular_fee: "parseFormatTabular text = Some p \<Longrightarrow> fee_ok p"
  by (auto simp: parseFormatTabular_def Let_def run_steps_def new_trade_def fee_ok_def
      num_abs_not_negative split: if_splits)

lemma vn_fee: "parseFormatVN text = Some p \<Longrightarrow> fee_ok p"
  unfolding parseFormatVN_def
  apply (simp split: if_splits)
  apply (erule subst)
  apply (rule run_steps_inv[where P = fee_ok])
   apply (rule fee_ok_new)
  apply (simp add: on_match_fee split: list.split)
  done

lemma grid_fee: "parseFormatAivoraGrid text = Some p \<Longrightarrow> fee_ok p"
  unfolding parseFormatAivoraGrid_def
  apply (simp split: if_splits)
  apply (erule subst)
  apply (rule run_steps_fee)
   apply (rule fee_ok_new)
  apply (simp add: on_match_fee run_steps_fee)
  done

lemma mobile_fee: "parseFormatBitunixMobile text = Some p \<Longrightarrow> fee_ok p"
  unfolding parseFormatBitunixMobile_def
  apply (simp split: if_splits)
  apply (erule subst)
  apply (rule run_steps_fee)
   apply (rule fee_ok_new)
  apply (simp add: on_match_fee split: option.split)
  done

lemma en_fee: "parseFormatAivoraEn text = Some p \<Longrightarrow> fee_ok p"
  unfolding parseFormatAivoraEn_def
  apply (simp split: if_splits)
  apply (erule subst)
  apply (rule run_steps_fee)
   apply (rule fee_ok_new)
  apply (simp add: on_match_fee)
  done

lemma web_fee: "parseFormatBitunixWeb text = Some p \<Longrightarrow> fee_ok p"
  unfolding parseFormatBitunixWeb_def
  apply (simp split: if_splits)
  apply (erule subst)
  apply (rule run_steps_fee)
   apply (rule fee_ok_new)
  apply (simp add: on_match_fee)
  done

lemma detectors_fee: "d \<in> set detectors \<Longrightarrow> d text = Some p \<Longrightarrow> fee_ok p"
  by (auto simp: detectors_def tabular_fee vn_fee grid_fee mobile_fee en_fee web_fee)

text \<open>
  Claim C9, as stated: in every record the cascade produces the fee is non-negative.
  This fails when the fee text holds no number: the fee is then not-a-number, which is
  not greater than or equal to 0.
\<close>

theorem fee_not_a_number:
  "parseTradeTextSmart sample_ai [] row_nan =
     ([], Inr \<lparr>uid = [], leverage = Num 100, openPrice = Num 1, closePrice = Some (Num 2),
               openTime = None, closeTime = None, quantity = Num 5, coin = asc ''ETH'',
               fee = NaN, pnl = Num 7\<rparr>)
   \<and> \<not> num_nonneg NaN"
  by (simp add: parseTradeTextSmart_def smartParse_def or_else_def row_nan_tabular gate_def
      truthy_opt_num_def merge_defaults_def or_default_def)

text \<open>
  Claim C9, amended: in every record the cascade produces the fee is never negative: it
  is either not-a-number or a number greater than or equal to 0, whatever sign the fee
  had in the text. The witness is a row whose fee is written -6: the fee is 6.
\<close>

theorem cascade_fee_never_negative:
  assumes "parseTradeTextSmart ai now text = ([], Inr tr)"
  shows "fee tr = NaN \<or> (\<exists>r\<ge>0. fee tr = Num r)"
proof -
  from assms obtain p where p: "smartParse text = Some p" "gate p" "tr = merge_defaults now p"
    by (auto simp: parseTradeTextSmart_def split: option.splits if_splits)
  from p(1) obtain d where "d \<in> set detectors" "d text = Some p"
    using smartParse_from by blast
  then have "fee_ok p" by (rule detectors_fee)
  then have "\<not> num_negative (fee tr)"
    by (auto simp: p(3) merge_defaults_def or_default_def fee_ok_def split: option.splits)
  then show ?thesis by (cases "fee tr") auto
qed

theorem cascade_fee_never_negative_witness:
  "parseTradeTextSmart sample_ai [] row_neg =
     ([], Inr \<lparr>uid = [], leverage = Num 100, openPrice = Num 1, closePrice = Some (Num 2),
               openTime = None, closeTime = None, quantity = Num 5, coin = asc ''ETH'',
               fee = Num 6, pnl = Num 7\<rparr>)
   \<and> (\<exists>r\<ge>0. fee \<lparr>uid = [], leverage = Num 100, openPrice = Num 1,
               closePrice = Some (Num 2), openTime = None, closeTime = None,
               quantity = Num 5, coin = asc ''ETH'', fee = Num 6, pnl = Num 7\<rparr> = Num r)"
  using cascade_fee_never_negative[OF row_neg_cascade] row_neg_cascade by simp

end
